theory Spec2Isabelle
  imports Main
begin

section \<open>Shallow embedding of dirmngr's command server (server.cpp)\<close>

text \<open>
  Conventions. A C string is the list of its characters before the terminating NUL;
  a counted buffer (\<open>value\<close>, \<open>valuelen\<close>) is the list of its bytes, so
  \<open>valuelen\<close> is the length of the list. Bytes and characters are both \<open>char\<close>.
  Logging (\<open>log_error\<close>, \<open>log_debug\<close>) and the release of memory are not modelled;
  allocations by \<open>xtrymalloc\<close>, \<open>xstrdup\<close> and \<open>strconcat\<close> are taken to succeed.
\<close>

type_synonym bytes = "char list"

subsection \<open>Character macros of common/util.h\<close>

text \<open>
  Modelled from the spec: the macros \<open>spacep\<close>, \<open>digitp\<close>, \<open>hexdigitp\<close>,
  \<open>xtoi_1\<close> and \<open>xtoi_2\<close> come from common/util.h, which is not among the sources.
  The spec speaks of hex digits, of \<open>%XX\<close> decoding to the byte with hex value XX
  and of pairs of hex digits decoding to one byte; the comment in
  \<open>get_istrusted_from_client\<close> gives the expected data as \<open>1\<close> or \<open>1 cruft\<close>,
  which \<open>spacep\<close> tests as a blank after the \<open>1\<close>. The definitions below are the
  macros of GnuPG with that meaning:
  \<^verbatim>\<open>
  #define spacep(p)    (*(p) == ' ' || *(p) == '\t')
  #define digitp(p)    (*(p) >= '0' && *(p) <= '9')
  #define hexdigitp(a) (digitp (a) || (*(a) >= 'A' && *(a) <= 'F')
                                   || (*(a) >= 'a' && *(a) <= 'f'))
  #define xtoi_1(p)    (*(p) <= '9'? (*(p)- '0'):
                        *(p) <= 'F'? (*(p)-'A'+10):(*(p)-'a'+10))
  #define xtoi_2(p)    ((xtoi_1(p) * 16) + xtoi_1((p)+1))
  \<close>
  \<open>xtoi_2\<close> is given the two characters it reads; its value is stored into a byte,
  so only the low eight bits are kept.
\<close>

definition spacep :: "char \<Rightarrow> bool" where
  "spacep c \<longleftrightarrow> c = CHR '' '' \<or> c = CHR 0x09"

definition digitp :: "char \<Rightarrow> bool" where
  "digitp c \<longleftrightarrow> (of_char CHR ''0'' :: nat) \<le> of_char c \<and> (of_char c :: nat) \<le> of_char CHR ''9''"

definition hexdigitp :: "char \<Rightarrow> bool" where
  "hexdigitp c \<longleftrightarrow>
     digitp c
     \<or> ((of_char CHR ''A'' :: nat) \<le> of_char c \<and> (of_char c :: nat) \<le> of_char CHR ''F'')
     \<or> ((of_char CHR ''a'' :: nat) \<le> of_char c \<and> (of_char c :: nat) \<le> of_char CHR ''f'')"

definition xtoi_1 :: "char \<Rightarrow> int" where
  "xtoi_1 c =
     (if (of_char c :: int) \<le> of_char CHR ''9'' then of_char c - of_char CHR ''0''
      else if (of_char c :: int) \<le> of_char CHR ''F'' then of_char c - of_char CHR ''A'' + 10
      else of_char c - of_char CHR ''a'' + 10)"

definition xtoi_2 :: "char \<Rightarrow> char \<Rightarrow> char" where
  "xtoi_2 c d = char_of (xtoi_1 c * 16 + xtoi_1 d)"

subsection \<open>The escape decoder\<close>


subsection \<open>The fingerprint parser\<close>

text \<open>
  \<open>get_fingerprint_from_line\<close>: the loop runs over the line up to the first space or
  the end; \<open>fpr\<close> holds the bytes stored so far, so the counter \<open>i\<close> of the source
  is \<open>length fpr\<close>. \<open>None\<close> is the NULL return.
\<close>

fun fpr_loop :: "string \<Rightarrow> bytes \<Rightarrow> bytes option" where
  "fpr_loop [] fpr = (if length fpr \<noteq> 20 then None else Some fpr)"
| "fpr_loop [c] fpr =
     (if c = CHR '' '' then (if length fpr \<noteq> 20 then None else Some fpr)
      else if c \<noteq> CHR '':'' then None
      else fpr_loop [] fpr)"
| "fpr_loop (c # d # s) fpr =
     (if c = CHR '' '' then (if length fpr \<noteq> 20 then None else Some fpr)
      else if hexdigitp c \<and> hexdigitp d then
        (if length fpr \<ge> 20 then None else fpr_loop s (fpr @ [xtoi_2 c d]))
      else if c \<noteq> CHR '':'' then None
      else fpr_loop (d # s) fpr)"

definition get_fingerprint_from_line :: "string \<Rightarrow> bytes option" where
  "get_fingerprint_from_line line = fpr_loop line []"

subsection \<open>Error codes, certificates, size limits\<close>

text \<open>
  \<open>gpg_error_t\<close>: the error codes are enumerators of libgpg-error's header, which is
  not among the sources; the datatype lists the ones server.cpp names in the modelled
  functions, \<open>GPG_ERR_NO_ERROR\<close> is the value 0 tested by \<open>if (err)\<close>, and
  \<open>GPG_ERR_OTHER\<close> stands for every other code a collaborator may return.
\<close>

datatype gpg_error =
    GPG_ERR_NO_ERROR
  | GPG_ERR_INV_ARG
  | GPG_ERR_MISSING_CERT
  | GPG_ERR_NO_CRL_KNOWN
  | GPG_ERR_NO_DATA
  | GPG_ERR_NOT_SUPPORTED
  | GPG_ERR_CERT_REVOKED
  | GPG_ERR_NOT_TRUSTED
  | GPG_ERR_ASS_PARAMETER
  | GPG_ERR_OTHER nat

text \<open>
  \<open>crl_cache_result_t\<close> (crlcache.h); \<open>CRL_CACHE_OTHER\<close> is any value outside the
  four enumerators, which the \<open>default:\<close> branch of \<open>cmd_isvalid\<close> catches.
\<close>

datatype crl_cache_result =
    CRL_CACHE_VALID
  | CRL_CACHE_INVALID
  | CRL_CACHE_DONTKNOW
  | CRL_CACHE_CANTUSE
  | CRL_CACHE_OTHER int

text \<open>A certificate object, identified by the DER image it was initialised from.\<close>

datatype ksba_cert = Ksba_cert bytes

text \<open>The parsed form of a URI is opaque to server.cpp.\<close>

datatype parsed_uri = Parsed_uri string

record uri_item =
  uri :: string
  parsed_uri :: parsed_uri

definition MAX_CERT_LENGTH :: nat where
  "MAX_CERT_LENGTH = 16 * 1024"

definition MAX_CERTLIST_LENGTH :: nat where
  "MAX_CERTLIST_LENGTH = (MAX_CERT_LENGTH * 20 * 4) div 3"

definition MAX_KEYBLOCK_LENGTH :: nat where
  "MAX_KEYBLOCK_LENGTH = 20 * 1024 * 1024"

subsection \<open>Collaborators and session state\<close>

text \<open>
  Every call of a collaborator is recorded with its arguments and its answer, in the
  order the calls are made.
\<close>

datatype call =
    Assuan_inquire string nat gpg_error bytes
  | Crl_cache_isvalid string "string option" int crl_cache_result
  | Crl_cache_reload_crl ksba_cert gpg_error
  | Crl_cache_cert_isvalid ksba_cert int gpg_error
  | Ocsp_isvalid "ksba_cert option" bool gpg_error
  | Ksba_cert_new gpg_error
  | Ksba_cert_init_from_mem bytes gpg_error
  | Get_cert_byfpr bytes "ksba_cert option"
  | Cache_cert ksba_cert gpg_error
  | Es_fopenmem_init bytes gpg_error
  | Read_certlist_from_stream bytes gpg_error "ksba_cert list"
  | Validate_cert_chain ksba_cert bool bool bool gpg_error
  | Ks_action_help string gpg_error
  | Ks_action_put "uri_item list" bytes bytes gpg_error
  | Dirmngr_status string string gpg_error

text \<open>The global \<open>opt\<close>: the two members the modelled functions read.\<close>

record options =
  allow_ocsp :: bool
  keyserver :: "string list"

text \<open>
  The collaborators, over a state \<open>'w\<close> of their own (the peer, the CRL and
  certificate caches, the network): each takes the arguments of the C function and the
  collaborators' state and returns its answer and the new state. An inquiry answers
  with the error code and the payload (\<open>value\<close>, \<open>valuelen\<close>).
  \<open>http_parse_uri\<close> and \<open>cert_compute_fpr\<close> compute from their argument only.
  \<open>es_fopenmem_init\<close> answers \<open>GPG_ERR_NO_ERROR\<close> when the stream was opened and
  otherwise the code \<open>gpg_error_from_syserror\<close> gives. \<open>validate_cert_chain\<close> is
  given the flags for TLS, system trust and no-CRL-check.
  \<open>DIRMNGR_DEFAULT_KEYSERVER\<close> is a macro of dirmngr.h, not among the sources.
\<close>

record 'w collab =
  opt :: options
  DIRMNGR_DEFAULT_KEYSERVER :: string
  http_parse_uri :: "string \<Rightarrow> bool \<Rightarrow> gpg_error \<times> parsed_uri"
  cert_compute_fpr :: "ksba_cert \<Rightarrow> bytes"
  assuan_inquire :: "string \<Rightarrow> nat \<Rightarrow> 'w \<Rightarrow> (gpg_error \<times> bytes) \<times> 'w"
  crl_cache_isvalid :: "string \<Rightarrow> string option \<Rightarrow> int \<Rightarrow> 'w \<Rightarrow> crl_cache_result \<times> 'w"
  crl_cache_reload_crl :: "ksba_cert \<Rightarrow> 'w \<Rightarrow> gpg_error \<times> 'w"
  crl_cache_cert_isvalid :: "ksba_cert \<Rightarrow> int \<Rightarrow> 'w \<Rightarrow> gpg_error \<times> 'w"
  ocsp_isvalid :: "ksba_cert option \<Rightarrow> bool \<Rightarrow> 'w \<Rightarrow> gpg_error \<times> 'w"
  ksba_cert_new :: "'w \<Rightarrow> gpg_error \<times> 'w"
  ksba_cert_init_from_mem :: "bytes \<Rightarrow> 'w \<Rightarrow> gpg_error \<times> 'w"
  get_cert_byfpr :: "bytes \<Rightarrow> 'w \<Rightarrow> ksba_cert option \<times> 'w"
  cache_cert :: "ksba_cert \<Rightarrow> 'w \<Rightarrow> gpg_error \<times> 'w"
  es_fopenmem_init :: "bytes \<Rightarrow> 'w \<Rightarrow> gpg_error \<times> 'w"
  read_certlist_from_stream :: "bytes \<Rightarrow> 'w \<Rightarrow> (gpg_error \<times> ksba_cert list) \<times> 'w"
  validate_cert_chain :: "ksba_cert \<Rightarrow> bool \<Rightarrow> bool \<Rightarrow> bool \<Rightarrow> 'w \<Rightarrow> gpg_error \<times> 'w"
  ks_action_help :: "string \<Rightarrow> 'w \<Rightarrow> gpg_error \<times> 'w"
  ks_action_put :: "uri_item list \<Rightarrow> bytes \<Rightarrow> bytes \<Rightarrow> 'w \<Rightarrow> gpg_error \<times> 'w"
  dirmngr_status :: "string \<Rightarrow> string \<Rightarrow> 'w \<Rightarrow> gpg_error \<times> 'w"

text \<open>
  The session (\<open>ctrl\<close> with its \<open>server_local\<close>): \<open>have_assuan_ctx\<close> says that
  \<open>ctrl\<close>, \<open>ctrl->server_local\<close> and \<open>ctrl->server_local->assuan_ctx\<close> are all
  non-NULL; \<open>keyservers\<close> is the linked list, head first; \<open>world\<close> is the state of
  the collaborators and \<open>calls\<close> the record of the calls made so far.
\<close>

record 'w ctrl =
  have_assuan_ctx :: bool
  keyservers :: "uri_item list"
  force_crl_refresh :: int
  world :: 'w
  calls :: "call list"

definition invoke :: "('w \<Rightarrow> 'r \<times> 'w) \<Rightarrow> ('r \<Rightarrow> call) \<Rightarrow> 'w ctrl \<Rightarrow> 'r \<times> 'w ctrl" where
  "invoke f ev s =
     (case f (world s) of (r, w') \<Rightarrow> (r, s\<lparr>world := w', calls := calls s @ [ev r]\<rparr>))"

definition call_assuan_inquire ::
  "'w collab \<Rightarrow> string \<Rightarrow> nat \<Rightarrow> 'w ctrl \<Rightarrow> (gpg_error \<times> bytes) \<times> 'w ctrl" where
  "call_assuan_inquire E keyword maxlen =
     invoke (assuan_inquire E keyword maxlen) (\<lambda>(err, val). Assuan_inquire keyword maxlen err val)"

definition call_crl_cache_isvalid ::
  "'w collab \<Rightarrow> string \<Rightarrow> string option \<Rightarrow> int \<Rightarrow> 'w ctrl \<Rightarrow> crl_cache_result \<times> 'w ctrl" where
  "call_crl_cache_isvalid E issuerhash serialno force =
     invoke (crl_cache_isvalid E issuerhash serialno force)
       (Crl_cache_isvalid issuerhash serialno force)"

definition call_crl_cache_reload_crl :: "'w collab \<Rightarrow> ksba_cert \<Rightarrow> 'w ctrl \<Rightarrow> gpg_error \<times> 'w ctrl" where
  "call_crl_cache_reload_crl E cert = invoke (crl_cache_reload_crl E cert) (Crl_cache_reload_crl cert)"

definition call_crl_cache_cert_isvalid ::
  "'w collab \<Rightarrow> ksba_cert \<Rightarrow> int \<Rightarrow> 'w ctrl \<Rightarrow> gpg_error \<times> 'w ctrl" where
  "call_crl_cache_cert_isvalid E cert force =
     invoke (crl_cache_cert_isvalid E cert force) (Crl_cache_cert_isvalid cert force)"

definition call_ocsp_isvalid ::
  "'w collab \<Rightarrow> ksba_cert option \<Rightarrow> bool \<Rightarrow> 'w ctrl \<Rightarrow> gpg_error \<times> 'w ctrl" where
  "call_ocsp_isvalid E cert force_default_responder =
     invoke (ocsp_isvalid E cert force_default_responder) (Ocsp_isvalid cert force_default_responder)"

definition call_ksba_cert_new :: "'w collab \<Rightarrow> 'w ctrl \<Rightarrow> gpg_error \<times> 'w ctrl" where
  "call_ksba_cert_new E = invoke (ksba_cert_new E) Ksba_cert_new"

definition call_ksba_cert_init_from_mem :: "'w collab \<Rightarrow> bytes \<Rightarrow> 'w ctrl \<Rightarrow> gpg_error \<times> 'w ctrl" where
  "call_ksba_cert_init_from_mem E val =
     invoke (ksba_cert_init_from_mem E val) (Ksba_cert_init_from_mem val)"

definition call_get_cert_byfpr :: "'w collab \<Rightarrow> bytes \<Rightarrow> 'w ctrl \<Rightarrow> ksba_cert option \<times> 'w ctrl" where
  "call_get_cert_byfpr E fpr = invoke (get_cert_byfpr E fpr) (Get_cert_byfpr fpr)"

definition call_cache_cert :: "'w collab \<Rightarrow> ksba_cert \<Rightarrow> 'w ctrl \<Rightarrow> gpg_error \<times> 'w ctrl" where
  "call_cache_cert E cert = invoke (cache_cert E cert) (Cache_cert cert)"

definition call_es_fopenmem_init :: "'w collab \<Rightarrow> bytes \<Rightarrow> 'w ctrl \<Rightarrow> gpg_error \<times> 'w ctrl" where
  "call_es_fopenmem_init E val = invoke (es_fopenmem_init E val) (Es_fopenmem_init val)"

definition call_read_certlist_from_stream ::
  "'w collab \<Rightarrow> bytes \<Rightarrow> 'w ctrl \<Rightarrow> (gpg_error \<times> ksba_cert list) \<times> 'w ctrl" where
  "call_read_certlist_from_stream E val =
     invoke (read_certlist_from_stream E val) (\<lambda>(err, cl). Read_certlist_from_stream val err cl)"

definition call_validate_cert_chain ::
  "'w collab \<Rightarrow> ksba_cert \<Rightarrow> bool \<Rightarrow> bool \<Rightarrow> bool \<Rightarrow> 'w ctrl \<Rightarrow> gpg_error \<times> 'w ctrl" where
  "call_validate_cert_chain E cert tls systrust nocrl =
     invoke (validate_cert_chain E cert tls systrust nocrl) (Validate_cert_chain cert tls systrust nocrl)"

definition call_ks_action_help :: "'w collab \<Rightarrow> string \<Rightarrow> 'w ctrl \<Rightarrow> gpg_error \<times> 'w ctrl" where
  "call_ks_action_help E line = invoke (ks_action_help E line) (Ks_action_help line)"

definition call_ks_action_put ::
  "'w collab \<Rightarrow> uri_item list \<Rightarrow> bytes \<Rightarrow> bytes \<Rightarrow> 'w ctrl \<Rightarrow> gpg_error \<times> 'w ctrl" where
  "call_ks_action_put E ks val info = invoke (ks_action_put E ks val info) (Ks_action_put ks val info)"

definition call_dirmngr_status ::
  "'w collab \<Rightarrow> string \<Rightarrow> string \<Rightarrow> 'w ctrl \<Rightarrow> gpg_error \<times> 'w ctrl" where
  "call_dirmngr_status E keyword text = invoke (dirmngr_status E keyword text) (Dirmngr_status keyword text)"

text \<open>The calls a command added to the record: those of \<open>s'\<close> after those of \<open>s\<close>.\<close>

definition new_calls :: "'w ctrl \<Rightarrow> 'w ctrl \<Rightarrow> call list" where
  "new_calls s s' = drop (length (calls s)) (calls s')"

text \<open>
  The idiom \<open>err = ksba_cert_new (&cert); if (!err) err = ksba_cert_init_from_mem
  (cert, value, valuelen);\<close> that four commands repeat; on success the certificate is
  \<open>Ksba_cert value\<close>.
\<close>

definition ksba_cert_new_init_from_mem :: "'w collab \<Rightarrow> bytes \<Rightarrow> 'w ctrl \<Rightarrow> gpg_error \<times> 'w ctrl" where
  "ksba_cert_new_init_from_mem E val s =
     (case call_ksba_cert_new E s of (err, s1) \<Rightarrow>
        if err \<noteq> GPG_ERR_NO_ERROR then (err, s1)
        else call_ksba_cert_init_from_mem E val s1)"

text \<open>\<open>leave_cmd\<close> logs a failure and returns the error it was given.\<close>

definition leave_cmd :: "gpg_error \<Rightarrow> gpg_error" where
  "leave_cmd err = err"

subsection \<open>The ISTRUSTED inquiry\<close>

text \<open>
  \<open>get_istrusted_from_client\<close>; \<open>hexfpr\<close> is \<open>None\<close> for a NULL pointer. The
  request is printed into a buffer of 100 bytes, which keeps its first 99 characters.
\<close>

definition get_istrusted_from_client ::
  "'w collab \<Rightarrow> string option \<Rightarrow> 'w ctrl \<Rightarrow> gpg_error \<times> 'w ctrl" where
  "get_istrusted_from_client E hexfpr s =
     (case hexfpr of
        None \<Rightarrow> (GPG_ERR_INV_ARG, s)
      | Some h \<Rightarrow>
          if \<not> have_assuan_ctx s then (GPG_ERR_INV_ARG, s)
          else
            (case call_assuan_inquire E (take 99 (''ISTRUSTED '' @ h)) 100 s of
               ((rc, val), s1) \<Rightarrow>
                 if rc \<noteq> GPG_ERR_NO_ERROR then (rc, s1)
                 else if val \<noteq> [] \<and> hd val = CHR ''1''
                         \<and> (length val = 1 \<or> spacep (val ! 1))
                 then (GPG_ERR_NO_ERROR, s1)
                 else (GPG_ERR_NOT_TRUSTED, s1)))"

subsection \<open>ISVALID\<close>

definition inquire_cert_and_load_crl :: "'w collab \<Rightarrow> 'w ctrl \<Rightarrow> gpg_error \<times> 'w ctrl" where
  "inquire_cert_and_load_crl E s =
     (case call_assuan_inquire E ''SENDCERT'' 0 s of
        ((err, val), s1) \<Rightarrow>
          if err \<noteq> GPG_ERR_NO_ERROR then (err, s1)
          else if val = [] then (GPG_ERR_MISSING_CERT, s1)
          else
            (case call_ksba_cert_new E s1 of
               (err, s2) \<Rightarrow>
                 if err \<noteq> GPG_ERR_NO_ERROR then (err, s2)
                 else
                   (case call_ksba_cert_init_from_mem E val s2 of
                      (err, s3) \<Rightarrow>
                        if err \<noteq> GPG_ERR_NO_ERROR then (err, s3)
                        else call_crl_cache_reload_crl E (Ksba_cert val) s3)))"

text \<open>
  What a command handler does: it returns an error code, or \<open>log_fatal\<close> ends the
  process.
\<close>

datatype cmd_result = Returned gpg_error | Log_fatal

text \<open>
  \<open>cmd_isvalid\<close> from the label \<open>again:\<close> to its end, with the local variables
  that are live there as arguments; \<open>goto again\<close> is the recursive call.
\<close>

function cmd_isvalid_again ::
  "'w collab \<Rightarrow> bool \<Rightarrow> bool \<Rightarrow> string \<Rightarrow> string option \<Rightarrow> bool \<Rightarrow> bool \<Rightarrow> 'w ctrl
     \<Rightarrow> cmd_result \<times> 'w ctrl" where
  "cmd_isvalid_again E only_ocsp force_default_responder issuerhash serialno ocsp_mode
       did_inquire s =
     (if ocsp_mode then
        (if \<not> allow_ocsp (opt E) then (Returned (leave_cmd GPG_ERR_NOT_SUPPORTED), s)
         else
           (case call_ocsp_isvalid E None force_default_responder s of
              (err, s1) \<Rightarrow> (Returned (leave_cmd err), s1)))
      else if only_ocsp then (Returned (leave_cmd GPG_ERR_NO_CRL_KNOWN), s)
      else
        (case call_crl_cache_isvalid E issuerhash serialno (force_crl_refresh s) s of
           (r, s1) \<Rightarrow>
             (case r of
                CRL_CACHE_VALID \<Rightarrow> (Returned (leave_cmd GPG_ERR_NO_ERROR), s1)
              | CRL_CACHE_INVALID \<Rightarrow> (Returned (leave_cmd GPG_ERR_CERT_REVOKED), s1)
              | CRL_CACHE_DONTKNOW \<Rightarrow>
                  if did_inquire then (Returned (leave_cmd GPG_ERR_NO_CRL_KNOWN), s1)
                  else
                    (case inquire_cert_and_load_crl E s1 of
                       (err, s2) \<Rightarrow>
                         if err = GPG_ERR_NO_ERROR then
                           cmd_isvalid_again E only_ocsp force_default_responder issuerhash
                             serialno ocsp_mode True s2
                         else (Returned (leave_cmd err), s2))
              | CRL_CACHE_CANTUSE \<Rightarrow> (Returned (leave_cmd GPG_ERR_NO_CRL_KNOWN), s1)
              | CRL_CACHE_OTHER _ \<Rightarrow> (Log_fatal, s1))))"
  by pat_completeness auto
termination
  by (relation "measure (\<lambda>(E, oo, fdr, ih, sn, om, did_inquire, s). if did_inquire then 0 else 1)")
     auto

text \<open>
  \<open>cmd_isvalid\<close>: \<open>only_ocsp\<close> and \<open>force_default_responder\<close> are what
  \<open>has_option\<close> found, \<open>line\<close> is the line after \<open>skip_options\<close> (both functions
  are in common/server-help, not among the sources). \<open>PARM_ERROR\<close> is
  \<open>assuan_set_error (ctx, GPG_ERR_ASS_PARAMETER, text)\<close>, which stores the text and
  returns the code.
\<close>

definition cmd_isvalid ::
  "'w collab \<Rightarrow> bool \<Rightarrow> bool \<Rightarrow> string \<Rightarrow> 'w ctrl \<Rightarrow> cmd_result \<times> 'w ctrl" where
  "cmd_isvalid E only_ocsp force_default_responder line s =
     (if CHR ''.'' \<in> set line then
        cmd_isvalid_again E only_ocsp force_default_responder
          (takeWhile (\<lambda>c. c \<noteq> CHR ''.'') line)
          (Some (tl (dropWhile (\<lambda>c. c \<noteq> CHR ''.'') line))) False False s
      else if length (takeWhile (\<lambda>c. c \<noteq> CHR '' '') line) \<noteq> 40 then
        (Returned (leave_cmd GPG_ERR_ASS_PARAMETER), s)
      else
        cmd_isvalid_again E only_ocsp force_default_responder
          (takeWhile (\<lambda>c. c \<noteq> CHR '' '') line) None True False s)"

subsection \<open>CHECKCRL, CHECKOCSP, CACHECERT, VALIDATE\<close>

text \<open>\<open>cmd_checkcrl\<close> after \<open>assert (cert)\<close>.\<close>

definition checkcrl_with_cert :: "'w collab \<Rightarrow> ksba_cert \<Rightarrow> 'w ctrl \<Rightarrow> gpg_error \<times> 'w ctrl" where
  "checkcrl_with_cert E cert s =
     (case call_crl_cache_cert_isvalid E cert (force_crl_refresh s) s of
        (err, s1) \<Rightarrow>
          if err = GPG_ERR_NO_CRL_KNOWN then
            (case call_crl_cache_reload_crl E cert s1 of
               (err, s2) \<Rightarrow>
                 if err = GPG_ERR_NO_ERROR then
                   (case call_crl_cache_cert_isvalid E cert 0 s2 of
                      (err, s3) \<Rightarrow> (leave_cmd err, s3))
                 else (leave_cmd err, s2))
          else (leave_cmd err, s1))"

definition cmd_checkcrl :: "'w collab \<Rightarrow> string \<Rightarrow> 'w ctrl \<Rightarrow> gpg_error \<times> 'w ctrl" where
  "cmd_checkcrl E line s =
     (case (case get_fingerprint_from_line line of
              None \<Rightarrow> (None, s)
            | Some fpr \<Rightarrow> call_get_cert_byfpr E fpr s) of
        (Some cert, s0) \<Rightarrow> checkcrl_with_cert E cert s0
      | (None, s0) \<Rightarrow>
          (case call_assuan_inquire E ''TARGETCERT'' MAX_CERT_LENGTH s0 of
             ((err, val), s1) \<Rightarrow>
               if err \<noteq> GPG_ERR_NO_ERROR then (leave_cmd err, s1)
               else if val = [] then (leave_cmd GPG_ERR_MISSING_CERT, s1)
               else
                 (case ksba_cert_new_init_from_mem E val s1 of
                    (err, s2) \<Rightarrow>
                      if err \<noteq> GPG_ERR_NO_ERROR then (leave_cmd err, s2)
                      else checkcrl_with_cert E (Ksba_cert val) s2)))"

text \<open>\<open>cmd_checkocsp\<close> after \<open>assert (cert)\<close>.\<close>

definition checkocsp_with_cert ::
  "'w collab \<Rightarrow> bool \<Rightarrow> ksba_cert \<Rightarrow> 'w ctrl \<Rightarrow> gpg_error \<times> 'w ctrl" where
  "checkocsp_with_cert E force_default_responder cert s =
     (if \<not> allow_ocsp (opt E) then (leave_cmd GPG_ERR_NOT_SUPPORTED, s)
      else
        (case call_ocsp_isvalid E (Some cert) force_default_responder s of
           (err, s1) \<Rightarrow> (leave_cmd err, s1)))"

definition cmd_checkocsp :: "'w collab \<Rightarrow> bool \<Rightarrow> string \<Rightarrow> 'w ctrl \<Rightarrow> gpg_error \<times> 'w ctrl" where
  "cmd_checkocsp E force_default_responder line s =
     (case (case get_fingerprint_from_line line of
              None \<Rightarrow> (None, s)
            | Some fpr \<Rightarrow> call_get_cert_byfpr E fpr s) of
        (Some cert, s0) \<Rightarrow> checkocsp_with_cert E force_default_responder cert s0
      | (None, s0) \<Rightarrow>
          (case call_assuan_inquire E ''TARGETCERT'' MAX_CERT_LENGTH s0 of
             ((err, val), s1) \<Rightarrow>
               if err \<noteq> GPG_ERR_NO_ERROR then (leave_cmd err, s1)
               else if val = [] then (leave_cmd GPG_ERR_MISSING_CERT, s1)
               else
                 (case ksba_cert_new_init_from_mem E val s1 of
                    (err, s2) \<Rightarrow>
                      if err \<noteq> GPG_ERR_NO_ERROR then (leave_cmd err, s2)
                      else checkocsp_with_cert E force_default_responder (Ksba_cert val) s2)))"

definition cmd_cachecert :: "'w collab \<Rightarrow> 'w ctrl \<Rightarrow> gpg_error \<times> 'w ctrl" where
  "cmd_cachecert E s =
     (case call_assuan_inquire E ''TARGETCERT'' MAX_CERT_LENGTH s of
        ((err, val), s1) \<Rightarrow>
          if err \<noteq> GPG_ERR_NO_ERROR then (leave_cmd err, s1)
          else if val = [] then (leave_cmd GPG_ERR_MISSING_CERT, s1)
          else
            (case ksba_cert_new_init_from_mem E val s1 of
               (err, s2) \<Rightarrow>
                 if err \<noteq> GPG_ERR_NO_ERROR then (leave_cmd err, s2)
                 else
                   (case call_cache_cert E (Ksba_cert val) s2 of
                      (err, s3) \<Rightarrow> (leave_cmd err, s3))))"

text \<open>
  The loop of \<open>cmd_validate\<close> over the certificates after the first:
  \<open>cache_cert (cl->cert)\<close>, its result dropped.
\<close>

fun validate_cache_certs :: "'w collab \<Rightarrow> ksba_cert list \<Rightarrow> 'w ctrl \<Rightarrow> 'w ctrl" where
  "validate_cache_certs E [] s = s"
| "validate_cache_certs E (cert # cl) s = validate_cache_certs E cl (snd (call_cache_cert E cert s))"

definition cmd_validate ::
  "'w collab \<Rightarrow> bool \<Rightarrow> bool \<Rightarrow> bool \<Rightarrow> 'w ctrl \<Rightarrow> gpg_error \<times> 'w ctrl" where
  "cmd_validate E systrust_mode tls_mode no_crl s =
     (case (if tls_mode then call_assuan_inquire E ''CERTLIST'' MAX_CERTLIST_LENGTH s
            else call_assuan_inquire E ''TARGETCERT'' MAX_CERT_LENGTH s) of
        ((err, val), s1) \<Rightarrow>
          if err \<noteq> GPG_ERR_NO_ERROR then (leave_cmd err, s1)
          else if val = [] then (leave_cmd GPG_ERR_MISSING_CERT, s1)
          else if tls_mode then
            (case call_es_fopenmem_init E val s1 of
               (err, s2) \<Rightarrow>
                 if err \<noteq> GPG_ERR_NO_ERROR then (leave_cmd err, s2)
                 else
                   (case call_read_certlist_from_stream E val s2 of
                      ((err, certlist), s3) \<Rightarrow>
                        if err \<noteq> GPG_ERR_NO_ERROR then (leave_cmd err, s3)
                        else
                          (case certlist of
                             [] \<Rightarrow> (leave_cmd GPG_ERR_MISSING_CERT, s3)
                           | cert # cl \<Rightarrow>
                               (case call_validate_cert_chain E cert tls_mode systrust_mode
                                       no_crl (validate_cache_certs E cl s3) of
                                  (err, s4) \<Rightarrow> (leave_cmd err, s4)))))
          else
            (case ksba_cert_new_init_from_mem E val s1 of
               (err, s2) \<Rightarrow>
                 if err \<noteq> GPG_ERR_NO_ERROR then (leave_cmd err, s2)
                 else
                   (case call_get_cert_byfpr E (cert_compute_fpr E (Ksba_cert val)) s2 of
                      (tmpcert, s3) \<Rightarrow>
                        (case call_validate_cert_chain E
                                (case tmpcert of Some c \<Rightarrow> c | None \<Rightarrow> Ksba_cert val)
                                tls_mode systrust_mode no_crl s3 of
                           (err, s4) \<Rightarrow> (leave_cmd err, s4)))))"

subsection \<open>The keyserver registry\<close>

text \<open>
  \<open>make_keyserver_item\<close>: \<open>Inl err\<close> is the error return, with \<open>*r_item\<close> left
  NULL; \<open>Inr item\<close> is the return of 0 with the new item, whose \<open>next\<close> is NULL.
\<close>

definition make_keyserver_item :: "'w collab \<Rightarrow> string \<Rightarrow> gpg_error + uri_item" where
  "make_keyserver_item E u =
     (case http_parse_uri E u True of
        (err, p) \<Rightarrow>
          if err \<noteq> GPG_ERR_NO_ERROR then Inl err
          else Inr \<lparr>uri = u, parsed_uri = p\<rparr>)"


text \<open>
  The loop of \<open>ensure_keyserver\<close> over \<open>opt.keyserver\<close>. It is entered with a
  non-empty list only, so that when it runs off the end \<open>err\<close> is the 0 of the last
  \<open>make_keyserver_item\<close>.
\<close>

fun ensure_keyserver_loop :: "'w collab \<Rightarrow> string list \<Rightarrow> 'w ctrl \<Rightarrow> gpg_error \<times> 'w ctrl" where
  "ensure_keyserver_loop E [] s = (GPG_ERR_NO_ERROR, s)"
| "ensure_keyserver_loop E (ks # rest) s =
     (case make_keyserver_item E ks of
        Inl err \<Rightarrow> (err, s)
      | Inr item \<Rightarrow> ensure_keyserver_loop E rest (s\<lparr>keyservers := item # keyservers s\<rparr>))"

definition ensure_keyserver :: "'w collab \<Rightarrow> 'w ctrl \<Rightarrow> gpg_error \<times> 'w ctrl" where
  "ensure_keyserver E s =
     (if keyservers s \<noteq> [] then (GPG_ERR_NO_ERROR, s)
      else if keyserver (opt E) = [] then
        (case make_keyserver_item E (DIRMNGR_DEFAULT_KEYSERVER E) of
           Inl err \<Rightarrow> (err, s\<lparr>keyservers := []\<rparr>)
         | Inr item \<Rightarrow> (GPG_ERR_NO_ERROR, s\<lparr>keyservers := [item]\<rparr>))
      else ensure_keyserver_loop E (keyserver (opt E)) s)"



subsection \<open>KS_PUT\<close>

definition cmd_ks_put :: "'w collab \<Rightarrow> 'w ctrl \<Rightarrow> gpg_error \<times> 'w ctrl" where
  "cmd_ks_put E s =
     (case ensure_keyserver E s of
        (err, s0) \<Rightarrow>
          if err \<noteq> GPG_ERR_NO_ERROR then (leave_cmd err, s0)
          else
            (case call_assuan_inquire E ''KEYBLOCK'' MAX_KEYBLOCK_LENGTH s0 of
               ((err, val), s1) \<Rightarrow>
                 if err \<noteq> GPG_ERR_NO_ERROR then (leave_cmd err, s1)
                 else if val = [] then (leave_cmd GPG_ERR_MISSING_CERT, s1)
                 else
                   (case call_assuan_inquire E ''KEYBLOCK_INFO'' MAX_KEYBLOCK_LENGTH s1 of
                      ((err, info), s2) \<Rightarrow>
                        if err \<noteq> GPG_ERR_NO_ERROR then (leave_cmd err, s2)
                        else
                          (case call_ks_action_put E (keyservers s2) val info s2 of
                             (err, s3) \<Rightarrow> (leave_cmd err, s3)))))"

subsection \<open>Reading the record of calls\<close>

fun is_inquire :: "call \<Rightarrow> bool" where
  "is_inquire (Assuan_inquire keyword maxlen err val) = True"
| "is_inquire c = False"

fun is_crl_lookup :: "call \<Rightarrow> bool" where
  "is_crl_lookup (Crl_cache_isvalid issuerhash serialno force r) = True"
| "is_crl_lookup c = False"

fun is_ocsp_check :: "call \<Rightarrow> bool" where
  "is_ocsp_check (Ocsp_isvalid cert force_default_responder err) = True"
| "is_ocsp_check c = False"

fun is_keyblock_info_inquiry :: "call \<Rightarrow> bool" where
  "is_keyblock_info_inquiry (Assuan_inquire keyword maxlen err val) = (keyword = ''KEYBLOCK_INFO'')"
| "is_keyblock_info_inquiry c = False"

fun is_ks_action_put :: "call \<Rightarrow> bool" where
  "is_ks_action_put (Ks_action_put ks val info err) = True"
| "is_ks_action_put c = False"

text \<open>The item \<open>make_keyserver_item\<close> builds for a URI that parses.\<close>

definition uri_item_of :: "'w collab \<Rightarrow> string \<Rightarrow> uri_item" where
  "uri_item_of E u = \<lparr>uri = u, parsed_uri = snd (http_parse_uri E u True)\<rparr>"

subsection \<open>The fingerprint syntax in the words of the specification\<close>

text \<open>
  Section 4.3 of the specification: for each pair of hex digits, decode one byte; a
  \<open>:\<close> separator is skipped and does not count as content; any other non-hex
  character yields no fingerprint. \<open>hex_pairs\<close> reads a text (the line up to the
  first space) in this way; \<open>None\<close> is "no fingerprint".
\<close>

fun hex_pairs :: "string \<Rightarrow> bytes option" where
  "hex_pairs [] = Some []"
| "hex_pairs [c] = (if c = CHR '':'' then Some [] else None)"
| "hex_pairs (c # d # s) =
     (if hexdigitp c \<and> hexdigitp d then map_option ((#) (xtoi_2 c d)) (hex_pairs s)
      else if c = CHR '':'' then hex_pairs (d # s)
      else None)"

text \<open>The two renderings of a sequence of hex-digit pairs: unseparated, and with a
  colon between neighbouring pairs.\<close>

fun unseparated :: "(char \<times> char) list \<Rightarrow> string" where
  "unseparated [] = []"
| "unseparated ((a, b) # ps) = a # b # unseparated ps"

fun colon_separated :: "(char \<times> char) list \<Rightarrow> string" where
  "colon_separated [] = []"
| "colon_separated [(a, b)] = [a, b]"
| "colon_separated ((a, b) # p # ps) = a # b # CHR '':'' # colon_separated (p # ps)"

text \<open>
  The wording of the claim about the fingerprint parser, read strictly: the text
  consists of hex-digit pairs optionally separated by \<open>:\<close>, that is, between two
  neighbouring pairs stands one colon or nothing, and no colon stands before the first
  pair or after the last.
\<close>

fun separated_pairs :: "string \<Rightarrow> bool" where
  "separated_pairs [] = True"
| "separated_pairs [a] = False"
| "separated_pairs [a, b] = (hexdigitp a \<and> hexdigitp b)"
| "separated_pairs (a # b # c # s) =
     (hexdigitp a \<and> hexdigitp b
      \<and> (if c = CHR '':'' then s \<noteq> [] \<and> separated_pairs s else separated_pairs (c # s)))"


text \<open>
  The session after the inquiry \<open>keyword\<close> with limit \<open>maxlen\<close> was made in \<open>s\<close>
  and answered with \<open>err\<close> and \<open>val\<close>, leaving the collaborators in \<open>w\<close>.
\<close>

definition after_inquiry ::
  "'w ctrl \<Rightarrow> string \<Rightarrow> nat \<Rightarrow> gpg_error \<Rightarrow> bytes \<Rightarrow> 'w \<Rightarrow> 'w ctrl" where
  "after_inquiry s keyword maxlen err val w =
     s\<lparr>world := w, calls := calls s @ [Assuan_inquire keyword maxlen err val]\<rparr>"

subsection \<open>A scripted instance of the collaborators\<close>

text \<open>
  Collaborators whose state is a script: the peer answers the inquiries with
  \<open>inquire_replies\<close>, one after the other, and the CRL cache answers the lookups
  with \<open>crl_replies\<close>; when a script has run out the peer sends an empty payload
  and the cache does not know. The URI parser rejects a URI that contains a space.
  Every other collaborator succeeds; no certificate is cached.
\<close>

record script =
  inquire_replies :: "(gpg_error \<times> bytes) list"
  crl_replies :: "crl_cache_result list"

definition scripted_collab :: "options \<Rightarrow> script collab" where
  "scripted_collab opts =
     \<lparr>opt = opts,
      DIRMNGR_DEFAULT_KEYSERVER = ''hkps://keys.example.org'',
      http_parse_uri = (\<lambda>u no_scheme_check.
         if CHR '' '' \<in> set u then (GPG_ERR_OTHER 1, Parsed_uri [])
         else (GPG_ERR_NO_ERROR, Parsed_uri u)),
      cert_compute_fpr = (\<lambda>cert. []),
      assuan_inquire = (\<lambda>keyword maxlen w.
         case inquire_replies w of
           [] \<Rightarrow> ((GPG_ERR_NO_ERROR, []), w)
         | r # rs \<Rightarrow> (r, w\<lparr>inquire_replies := rs\<rparr>)),
      crl_cache_isvalid = (\<lambda>issuerhash serialno force w.
         case crl_replies w of
           [] \<Rightarrow> (CRL_CACHE_DONTKNOW, w)
         | r # rs \<Rightarrow> (r, w\<lparr>crl_replies := rs\<rparr>)),
      crl_cache_reload_crl = (\<lambda>cert w. (GPG_ERR_NO_ERROR, w)),
      crl_cache_cert_isvalid = (\<lambda>cert force w. (GPG_ERR_NO_ERROR, w)),
      ocsp_isvalid = (\<lambda>cert force_default_responder w. (GPG_ERR_NO_ERROR, w)),
      ksba_cert_new = (\<lambda>w. (GPG_ERR_NO_ERROR, w)),
      ksba_cert_init_from_mem = (\<lambda>val w. (GPG_ERR_NO_ERROR, w)),
      get_cert_byfpr = (\<lambda>fpr w. (None, w)),
      cache_cert = (\<lambda>cert w. (GPG_ERR_NO_ERROR, w)),
      es_fopenmem_init = (\<lambda>val w. (GPG_ERR_NO_ERROR, w)),
      read_certlist_from_stream = (\<lambda>val w. ((GPG_ERR_NO_ERROR, [Ksba_cert val]), w)),
      validate_cert_chain = (\<lambda>cert tls systrust nocrl w. (GPG_ERR_NO_ERROR, w)),
      ks_action_help = (\<lambda>line w. (GPG_ERR_NO_ERROR, w)),
      ks_action_put = (\<lambda>ks val info w. (GPG_ERR_NO_ERROR, w)),
      dirmngr_status = (\<lambda>keyword text w. (GPG_ERR_NO_ERROR, w))\<rparr>"

definition scripted_session :: "(gpg_error \<times> bytes) list \<Rightarrow> crl_cache_result list \<Rightarrow> script ctrl" where
  "scripted_session inq crl =
     \<lparr>have_assuan_ctx = True, keyservers = [], force_crl_refresh = 0,
      world = \<lparr>inquire_replies = inq, crl_replies = crl\<rparr>, calls = []\<rparr>"

section \<open>Properties\<close>

subsection \<open>The escape decoder\<close>






subsection \<open>The fingerprint parser\<close>

lemma hexdigitp_not_space [simp]: "\<not> hexdigitp CHR '' ''"
  by (simp add: hexdigitp_def digitp_def)

lemma hexdigitp_not_colon [simp]: "\<not> hexdigitp CHR '':''"
  by (simp add: hexdigitp_def digitp_def)

lemma fpr_loop_hex_pairs:
  "fpr_loop s acc =
     (case hex_pairs (takeWhile (\<lambda>c. c \<noteq> CHR '' '') s) of
        None \<Rightarrow> None
      | Some bs \<Rightarrow> if length acc + length bs = 20 then Some (acc @ bs) else None)"
proof (induction s acc rule: fpr_loop.induct)
  case (1 fpr)
  then show ?case by simp
next
  case (2 c fpr)
  then show ?case by simp
next
  case (3 c d s fpr)
  show ?case
  proof (cases "c = CHR '' ''")
    case True
    then show ?thesis by simp
  next
    case nsp: False
    show ?thesis
    proof (cases "hexdigitp c \<and> hexdigitp d")
      case True
      then have dn: "d \<noteq> CHR '' ''" by auto
      show ?thesis
      proof (cases "20 \<le> length fpr")
        case True
        with \<open>hexdigitp c \<and> hexdigitp d\<close> nsp dn show ?thesis
          by (auto split: option.splits)
      next
        case False
        with 3(1) [OF nsp True] True nsp dn show ?thesis
          by (auto split: option.splits)
      qed
    next
      case False
      with 3(2) nsp show ?thesis
        by (auto split: option.splits)
    qed
  qed
qed

lemma hex_pairs_bad_char:
  "c \<in> set t \<Longrightarrow> \<not> hexdigitp c \<Longrightarrow> c \<noteq> CHR '':'' \<Longrightarrow> hex_pairs t = None"
  by (induction t rule: hex_pairs.induct) (auto split: if_splits)

lemma unseparated_no_space:
  "\<forall>(a, b) \<in> set ps. hexdigitp a \<and> hexdigitp b \<Longrightarrow> CHR '' '' \<notin> set (unseparated ps)"
proof (induction ps rule: unseparated.induct)
  case 1
  show ?case by simp
next
  case (2 a b ps)
  then have "hexdigitp a" "hexdigitp b" "CHR '' '' \<notin> set (unseparated ps)" by simp_all
  then show ?case by (cases "a = CHR '' ''"; cases "b = CHR '' ''") simp_all
qed

lemma colon_separated_no_space:
  "\<forall>(a, b) \<in> set ps. hexdigitp a \<and> hexdigitp b \<Longrightarrow> CHR '' '' \<notin> set (colon_separated ps)"
proof (induction ps rule: colon_separated.induct)
  case 1
  show ?case by simp
next
  case (2 a b)
  then have "hexdigitp a" "hexdigitp b" by simp_all
  then show ?case by (cases "a = CHR '' ''"; cases "b = CHR '' ''") simp_all
next
  case (3 a b p ps)
  then have "hexdigitp a" "hexdigitp b" "CHR '' '' \<notin> set (colon_separated (p # ps))" by simp_all
  then show ?case by (cases "a = CHR '' ''"; cases "b = CHR '' ''") simp_all
qed

lemma takeWhile_no_space:
  "CHR '' '' \<notin> set t \<Longrightarrow> takeWhile (\<lambda>c. c \<noteq> CHR '' '') (t @ CHR '' '' # rest) = t"
  "CHR '' '' \<notin> set t \<Longrightarrow> takeWhile (\<lambda>c. c \<noteq> CHR '' '') t = t"
  by (induction t) auto

lemma hex_pairs_unseparated:
  "\<forall>(a, b) \<in> set ps. hexdigitp a \<and> hexdigitp b \<Longrightarrow>
   hex_pairs (unseparated ps) = Some (map (\<lambda>(a, b). xtoi_2 a b) ps)"
  by (induction ps rule: unseparated.induct) auto

lemma hex_pairs_colon: "hex_pairs (CHR '':'' # t) = hex_pairs t"
  by (cases t) auto

lemma hex_pairs_colon_separated:
  "\<forall>(a, b) \<in> set ps. hexdigitp a \<and> hexdigitp b \<Longrightarrow>
   hex_pairs (colon_separated ps) = Some (map (\<lambda>(a, b). xtoi_2 a b) ps)"
  by (induction ps rule: colon_separated.induct) (auto simp: hex_pairs_colon)


lemma separated_pairs_hex_pairs: "separated_pairs t \<Longrightarrow> hex_pairs t \<noteq> None"
  by (induction t rule: separated_pairs.induct) (auto split: if_splits simp: hex_pairs_colon)

lemma get_fingerprint_from_line_hex_pairs:
  "get_fingerprint_from_line l =
     (case hex_pairs (takeWhile (\<lambda>c. c \<noteq> CHR '' '') l) of
        None \<Rightarrow> None
      | Some bs \<Rightarrow> if length bs = 20 then Some bs else None)"
  by (simp add: get_fingerprint_from_line_def fpr_loop_hex_pairs split: option.splits)

text \<open>
  Claim C6, as amended. The fingerprint parser succeeds exactly when the text before
  the first space consists of hex-digit pairs and colons, where a colon may stand
  anywhere outside a pair (between two pairs, repeated, before the first pair, after
  the last) and is skipped, and the pairs decode to exactly 20 bytes; it then returns
  these bytes. A text of hex-digit pairs with at most one colon between neighbours is
  such a text. The colon-separated and the unseparated rendering of the same 20 pairs
  decode to the same 20 bytes, also when a space and more text follow; a character
  before the first space that is neither a hex digit nor a colon gives no fingerprint;
  a text that decodes to 19 or to 21 bytes gives no fingerprint.
\<close>

theorem get_fingerprint_from_line_spec:
  "(get_fingerprint_from_line line = Some fpr \<longleftrightarrow>
      hex_pairs (takeWhile (\<lambda>c. c \<noteq> CHR '' '') line) = Some fpr \<and> length fpr = 20)
   \<and> (length ps = 20 \<longrightarrow> (\<forall>(a, b) \<in> set ps. hexdigitp a \<and> hexdigitp b) \<longrightarrow>
        get_fingerprint_from_line (colon_separated ps) = Some (map (\<lambda>(a, b). xtoi_2 a b) ps)
        \<and> get_fingerprint_from_line (unseparated ps) = Some (map (\<lambda>(a, b). xtoi_2 a b) ps)
        \<and> get_fingerprint_from_line (colon_separated ps @ CHR '' '' # rest)
            = Some (map (\<lambda>(a, b). xtoi_2 a b) ps)
        \<and> get_fingerprint_from_line (unseparated ps @ CHR '' '' # rest)
            = Some (map (\<lambda>(a, b). xtoi_2 a b) ps))
   \<and> ((\<exists>c \<in> set (takeWhile (\<lambda>c. c \<noteq> CHR '' '') line). \<not> hexdigitp c \<and> c \<noteq> CHR '':'') \<longrightarrow>
        get_fingerprint_from_line line = None)
   \<and> (hex_pairs (takeWhile (\<lambda>c. c \<noteq> CHR '' '') line) = Some bs \<longrightarrow>
        length bs = 19 \<or> length bs = 21 \<longrightarrow> get_fingerprint_from_line line = None)
   \<and> (separated_pairs (takeWhile (\<lambda>c. c \<noteq> CHR '' '') line) \<longrightarrow>
        hex_pairs (takeWhile (\<lambda>c. c \<noteq> CHR '' '') line) \<noteq> None)"
proof -
  note char = get_fingerprint_from_line_hex_pairs
  have 1: "get_fingerprint_from_line line = Some fpr \<longleftrightarrow>
      hex_pairs (takeWhile (\<lambda>c. c \<noteq> CHR '' '') line) = Some fpr \<and> length fpr = 20"
    by (auto simp: char split: option.splits)
  have 2: "get_fingerprint_from_line (colon_separated ps) = Some (map (\<lambda>(a, b). xtoi_2 a b) ps)
        \<and> get_fingerprint_from_line (unseparated ps) = Some (map (\<lambda>(a, b). xtoi_2 a b) ps)
        \<and> get_fingerprint_from_line (colon_separated ps @ CHR '' '' # rest)
            = Some (map (\<lambda>(a, b). xtoi_2 a b) ps)
        \<and> get_fingerprint_from_line (unseparated ps @ CHR '' '' # rest)
            = Some (map (\<lambda>(a, b). xtoi_2 a b) ps)"
    if len: "length ps = 20" and hex: "\<forall>(a, b) \<in> set ps. hexdigitp a \<and> hexdigitp b"
  proof -
    note ns = unseparated_no_space [OF hex] colon_separated_no_space [OF hex]
    show ?thesis
      by (simp only: char takeWhile_no_space [OF ns(1)] takeWhile_no_space [OF ns(2)]
          hex_pairs_unseparated [OF hex] hex_pairs_colon_separated [OF hex]
          option.case length_map len if_True simp_thms)
  qed
  have 3: "get_fingerprint_from_line line = None"
    if "\<exists>c \<in> set (takeWhile (\<lambda>c. c \<noteq> CHR '' '') line). \<not> hexdigitp c \<and> c \<noteq> CHR '':''"
  proof -
    from that obtain c where "c \<in> set (takeWhile (\<lambda>c. c \<noteq> CHR '' '') line)"
      and "\<not> hexdigitp c" and "c \<noteq> CHR '':''" by blast
    then have "hex_pairs (takeWhile (\<lambda>c. c \<noteq> CHR '' '') line) = None"
      by (rule hex_pairs_bad_char)
    then show ?thesis by (simp add: char)
  qed
  have 4: "get_fingerprint_from_line line = None"
    if "hex_pairs (takeWhile (\<lambda>c. c \<noteq> CHR '' '') line) = Some bs"
      and "length bs = 19 \<or> length bs = 21"
    using that by (auto simp: char)
  show ?thesis
    apply (intro conjI impI)
    subgoal by (rule 1)
    subgoal by (rule 2 [THEN conjunct1])
    subgoal by (rule 2 [THEN conjunct2, THEN conjunct1])
    subgoal by (rule 2 [THEN conjunct2, THEN conjunct2, THEN conjunct1])
    subgoal by (rule 2 [THEN conjunct2, THEN conjunct2, THEN conjunct2])
    subgoal by (rule 3)
    subgoal by (rule 4)
    subgoal by (rule separated_pairs_hex_pairs)
    done
qed

theorem get_fingerprint_from_line_spec_witness:
  "get_fingerprint_from_line (colon_separated (replicate 20 (CHR ''4'', CHR ''1'')))
     = Some (replicate 20 CHR ''A'')
   \<and> get_fingerprint_from_line (unseparated (replicate 20 (CHR ''4'', CHR ''1'')))
     = Some (replicate 20 CHR ''A'')
   \<and> get_fingerprint_from_line ''41:4x'' = None
   \<and> get_fingerprint_from_line (unseparated (replicate 19 (CHR ''4'', CHR ''1''))) = None
   \<and> hex_pairs (takeWhile (\<lambda>c. c \<noteq> CHR '' '') ''41:42 x'') \<noteq> None"
proof -
  have hex: "hexdigitp CHR ''4''" "hexdigitp CHR ''1''"
    by (simp_all add: hexdigitp_def digitp_def)
  have x: "xtoi_2 CHR ''4'' CHR ''1'' = CHR ''A''"
    by (simp add: xtoi_2_def xtoi_1_def char_of_def)
  have h1: "length (replicate 20 (CHR ''4'', CHR ''1'')) = 20"
    by simp
  have h2: "\<forall>(a, b) \<in> set (replicate n (CHR ''4'', CHR ''1'')). hexdigitp a \<and> hexdigitp b" for n
    using hex by simp
  have h3: "\<exists>c \<in> set (takeWhile (\<lambda>c. c \<noteq> CHR '' '') ''41:4x''). \<not> hexdigitp c \<and> c \<noteq> CHR '':''"
    by (simp add: hexdigitp_def digitp_def)
  have h4: "hex_pairs (takeWhile (\<lambda>c. c \<noteq> CHR '' '') (unseparated (replicate 19 (CHR ''4'', CHR ''1''))))
              = Some (replicate 19 CHR ''A'')"
    by (simp add: takeWhile_no_space [OF unseparated_no_space [OF h2]]
        hex_pairs_unseparated [OF h2] x)
  have h5: "length (replicate 19 CHR ''A'') = 19 \<or> length (replicate 19 CHR ''A'') = 21"
    by simp
  note a = get_fingerprint_from_line_spec
    [of "''41:4x''" "[]" "replicate 20 (CHR ''4'', CHR ''1'')" "[]" "[]"]
  have h6: "separated_pairs (takeWhile (\<lambda>c. c \<noteq> CHR '' '') ''41:42 x'')"
    by (simp add: hexdigitp_def digitp_def)
  note c = get_fingerprint_from_line_spec [of "''41:42 x''" "[]" "[]" "[]" "[]"]
  note b = get_fingerprint_from_line_spec
    [of "unseparated (replicate 19 (CHR ''4'', CHR ''1''))" "[]" "[]" "[]" "replicate 19 CHR ''A''"]
  from a h1 h2 [of 20] have
    "get_fingerprint_from_line (colon_separated (replicate 20 (CHR ''4'', CHR ''1'')))
       = Some (map (\<lambda>(a, b). xtoi_2 a b) (replicate 20 (CHR ''4'', CHR ''1'')))"
    "get_fingerprint_from_line (unseparated (replicate 20 (CHR ''4'', CHR ''1'')))
       = Some (map (\<lambda>(a, b). xtoi_2 a b) (replicate 20 (CHR ''4'', CHR ''1'')))"
    by blast+
  moreover from a h3 have "get_fingerprint_from_line ''41:4x'' = None"
    by blast
  moreover from b h4 h5 have
    "get_fingerprint_from_line (unseparated (replicate 19 (CHR ''4'', CHR ''1''))) = None"
    by blast
  moreover from c h6 have "hex_pairs (takeWhile (\<lambda>c. c \<noteq> CHR '' '') ''41:42 x'') \<noteq> None"
    by blast
  ultimately show ?thesis
    by (simp add: x)
qed

text \<open>
  Claim C6 as it was stated fails: a colon followed by twenty pairs \<open>41\<close> is not a
  text of hex-digit pairs optionally separated by colons (it begins with a colon), and
  the parser succeeds on it with twenty bytes \<open>A\<close>.
\<close>

theorem get_fingerprint_from_line_spec_counterexample:
  "\<not> separated_pairs
       (takeWhile (\<lambda>c. c \<noteq> CHR '' '') '':4141414141414141414141414141414141414141'')
   \<and> get_fingerprint_from_line '':4141414141414141414141414141414141414141''
       = Some ''AAAAAAAAAAAAAAAAAAAA''"
  by (simp add: get_fingerprint_from_line_def hexdigitp_def digitp_def xtoi_2_def xtoi_1_def
      char_of_def)


subsection \<open>The ISTRUSTED inquiry\<close>

text \<open>
  Claim C8, as amended. When the ISTRUSTED inquiry is issued and the peer answers it,
  the check returns success exactly when the response body is \<open>1\<close> alone or starts
  with \<open>1\<close> followed by a space or a tab; every other body, also one that starts
  with \<open>1\<close> followed by another character, makes it return the not-trusted error.
\<close>

theorem get_istrusted_from_client_body:
  assumes "have_assuan_ctx s"
    and "call_assuan_inquire E (take 99 (''ISTRUSTED '' @ h)) 100 s
           = ((GPG_ERR_NO_ERROR, val), s1)"
  shows "get_istrusted_from_client E (Some h) s =
           (if val = ''1'' \<or> (\<exists>c rest. val = CHR ''1'' # c # rest \<and> spacep c)
            then GPG_ERR_NO_ERROR else GPG_ERR_NOT_TRUSTED, s1)"
proof (cases val)
  case Nil
  with assms show ?thesis by (simp add: get_istrusted_from_client_def)
next
  case (Cons c rest)
  with assms show ?thesis
    by (cases rest) (auto simp add: get_istrusted_from_client_def)
qed

theorem get_istrusted_from_client_body_witness:
  "fst (get_istrusted_from_client (scripted_collab \<lparr>allow_ocsp = True, keyserver = []\<rparr>)
          (Some ''ABCD'') (scripted_session [(GPG_ERR_NO_ERROR, ''1 x'')] []))
     = GPG_ERR_NO_ERROR
   \<and> fst (get_istrusted_from_client (scripted_collab \<lparr>allow_ocsp = True, keyserver = []\<rparr>)
          (Some ''ABCD'') (scripted_session [(GPG_ERR_NO_ERROR, ''0'')] []))
     = GPG_ERR_NOT_TRUSTED"
proof -
  let ?E = "scripted_collab \<lparr>allow_ocsp = True, keyserver = []\<rparr>"
  have ctx: "have_assuan_ctx (scripted_session inq [])" for inq
    by (simp add: scripted_session_def)
  have inq: "call_assuan_inquire ?E (take 99 (''ISTRUSTED '' @ ''ABCD'')) 100
               (scripted_session [(GPG_ERR_NO_ERROR, v)] [])
             = ((GPG_ERR_NO_ERROR, v),
                snd (call_assuan_inquire ?E (take 99 (''ISTRUSTED '' @ ''ABCD'')) 100
                       (scripted_session [(GPG_ERR_NO_ERROR, v)] [])))" for v
    by (simp add: call_assuan_inquire_def invoke_def scripted_collab_def scripted_session_def)
  from get_istrusted_from_client_body [OF ctx inq, of "''1 x''"]
    get_istrusted_from_client_body [OF ctx inq, of "''0''"]
  show ?thesis
    by (simp add: spacep_def)
qed

text \<open>
  Claim C8 as it was stated fails: the body \<open>12\<close> starts with the character
  \<open>1\<close>, and the check returns the not-trusted error.
\<close>

theorem get_istrusted_from_client_counterexample:
  "hd ''12'' = CHR ''1''
   \<and> get_istrusted_from_client (scripted_collab \<lparr>allow_ocsp = True, keyserver = []\<rparr>)
        (Some ''ABCD'') (scripted_session [(GPG_ERR_NO_ERROR, ''12'')] [])
     = (GPG_ERR_NOT_TRUSTED,
        \<lparr>have_assuan_ctx = True, keyservers = [], force_crl_refresh = 0,
         world = \<lparr>inquire_replies = [], crl_replies = []\<rparr>,
         calls = [Assuan_inquire ''ISTRUSTED ABCD'' 100 GPG_ERR_NO_ERROR ''12'']\<rparr>)"
  by (simp add: get_istrusted_from_client_def call_assuan_inquire_def invoke_def
      scripted_collab_def scripted_session_def spacep_def)

subsection \<open>The record of calls\<close>

lemmas call_defs = call_assuan_inquire_def call_crl_cache_isvalid_def call_crl_cache_reload_crl_def
  call_crl_cache_cert_isvalid_def call_ocsp_isvalid_def call_ksba_cert_new_def
  call_ksba_cert_init_from_mem_def call_get_cert_byfpr_def call_cache_cert_def
  call_es_fopenmem_init_def call_read_certlist_from_stream_def call_validate_cert_chain_def
  call_ks_action_help_def call_ks_action_put_def call_dirmngr_status_def

text \<open>The definitions to unfold when a command is run on the scripted collaborators.\<close>

lemmas run_defs = new_calls_def scripted_collab_def scripted_session_def call_defs invoke_def
  leave_cmd_def ksba_cert_new_init_from_mem_def

lemma invoke_result:
  "invoke f ev s = (r, s') \<Longrightarrow>
     calls s' = calls s @ [ev r] \<and> keyservers s' = keyservers s
     \<and> force_crl_refresh s' = force_crl_refresh s \<and> have_assuan_ctx s' = have_assuan_ctx s"
  by (auto simp: invoke_def split: prod.splits)

subsection \<open>ISVALID: the two passes through the CRL cache\<close>

declare cmd_isvalid_again.simps [simp del]

lemma cmd_isvalid_again_retry:
  "cmd_isvalid_again E False fdr ih sn False True s =
     (case call_crl_cache_isvalid E ih sn (force_crl_refresh s) s of
        (r, s1) \<Rightarrow>
          (case r of
             CRL_CACHE_VALID \<Rightarrow> Returned GPG_ERR_NO_ERROR
           | CRL_CACHE_INVALID \<Rightarrow> Returned GPG_ERR_CERT_REVOKED
           | CRL_CACHE_DONTKNOW \<Rightarrow> Returned GPG_ERR_NO_CRL_KNOWN
           | CRL_CACHE_CANTUSE \<Rightarrow> Returned GPG_ERR_NO_CRL_KNOWN
           | CRL_CACHE_OTHER x \<Rightarrow> Log_fatal, s1))"
  by (subst cmd_isvalid_again.simps)
     (simp add: leave_cmd_def split: prod.splits crl_cache_result.splits)

lemma cmd_isvalid_again_first:
  "cmd_isvalid_again E False fdr ih sn False False s =
     (case call_crl_cache_isvalid E ih sn (force_crl_refresh s) s of
        (r, s1) \<Rightarrow>
          (case r of
             CRL_CACHE_VALID \<Rightarrow> (Returned GPG_ERR_NO_ERROR, s1)
           | CRL_CACHE_INVALID \<Rightarrow> (Returned GPG_ERR_CERT_REVOKED, s1)
           | CRL_CACHE_DONTKNOW \<Rightarrow>
               (case inquire_cert_and_load_crl E s1 of
                  (err, s2) \<Rightarrow>
                    if err = GPG_ERR_NO_ERROR then cmd_isvalid_again E False fdr ih sn False True s2
                    else (Returned err, s2))
           | CRL_CACHE_CANTUSE \<Rightarrow> (Returned GPG_ERR_NO_CRL_KNOWN, s1)
           | CRL_CACHE_OTHER x \<Rightarrow> (Log_fatal, s1)))"
  by (subst cmd_isvalid_again.simps) (simp add: leave_cmd_def split: prod.splits crl_cache_result.splits)

subsection \<open>ISVALID: retry and routing\<close>

lemma new_calls_append [simp]: "calls s' = calls s @ evs \<Longrightarrow> new_calls s s' = evs"
  by (simp add: new_calls_def)

lemma call_crl_cache_isvalid_result:
  "call_crl_cache_isvalid E ih sn f s = (r, s') \<Longrightarrow>
     calls s' = calls s @ [Crl_cache_isvalid ih sn f r] \<and> force_crl_refresh s' = force_crl_refresh s"
  unfolding call_crl_cache_isvalid_def by (drule invoke_result) simp

lemma inquire_cert_and_load_crl_calls:
  assumes "inquire_cert_and_load_crl E s1 = (err, s2)"
  shows "\<exists>e v rest. calls s2 = calls s1 @ Assuan_inquire ''SENDCERT'' 0 e v # rest
           \<and> (\<forall>c \<in> set rest. \<not> is_inquire c \<and> \<not> is_crl_lookup c \<and> \<not> is_ocsp_check c)
           \<and> force_crl_refresh s2 = force_crl_refresh s1"
  using assms
  by (auto simp: inquire_cert_and_load_crl_def call_assuan_inquire_def call_ksba_cert_new_def
      call_ksba_cert_init_from_mem_def call_crl_cache_reload_crl_def invoke_def
      split: prod.splits if_splits)

lemma cmd_isvalid_dot:
  "CHR ''.'' \<in> set line \<Longrightarrow>
     cmd_isvalid E only_ocsp fdr line s =
       cmd_isvalid_again E only_ocsp fdr (takeWhile (\<lambda>c. c \<noteq> CHR ''.'') line)
         (Some (tl (dropWhile (\<lambda>c. c \<noteq> CHR ''.'') line))) False False s"
  by (simp add: cmd_isvalid_def)




text \<open>
  Claim C10. An ISVALID invocation with \<open>--only-ocsp\<close> whose argument contains a
  \<open>.\<close> returns the no-CRL-known error at once: the session and the collaborators
  are as before, and no call (CRL cache, OCSP checker, inquiry) was made.
\<close>

theorem cmd_isvalid_only_ocsp_crl_form:
  "CHR ''.'' \<in> set line \<Longrightarrow>
     cmd_isvalid E True fdr line s = (Returned GPG_ERR_NO_CRL_KNOWN, s)
     \<and> new_calls s (snd (cmd_isvalid E True fdr line s)) = []"
  by (simp add: cmd_isvalid_def cmd_isvalid_again.simps leave_cmd_def new_calls_def)

theorem cmd_isvalid_only_ocsp_crl_form_witness:
  "cmd_isvalid (scripted_collab \<lparr>allow_ocsp = True, keyserver = []\<rparr>) True False ''ab.cd''
     (scripted_session [] [CRL_CACHE_VALID])
   = (Returned GPG_ERR_NO_CRL_KNOWN, scripted_session [] [CRL_CACHE_VALID])"
proof -
  have "CHR ''.'' \<in> set ''ab.cd''" by simp
  from cmd_isvalid_only_ocsp_crl_form
    [OF this, of "scripted_collab \<lparr>allow_ocsp = True, keyserver = []\<rparr>" False
       "scripted_session [] [CRL_CACHE_VALID]"]
  show ?thesis by simp
qed

lemma cmd_isvalid_again_crl_calls:
  "\<exists>r rest. calls (snd (cmd_isvalid_again E False fdr ih sn False di s))
             = calls s @ Crl_cache_isvalid ih sn (force_crl_refresh s) r # rest
           \<and> (\<forall>c \<in> set rest. \<not> is_ocsp_check c)"
proof -
  obtain r s1 where first: "call_crl_cache_isvalid E ih sn (force_crl_refresh s) s = (r, s1)"
    by (cases "call_crl_cache_isvalid E ih sn (force_crl_refresh s) s")
  note c1 = call_crl_cache_isvalid_result [OF first]
  have retry: "\<exists>r rest. calls (snd (cmd_isvalid_again E False fdr ih sn False True t))
             = calls t @ Crl_cache_isvalid ih sn (force_crl_refresh t) r # rest
           \<and> (\<forall>c \<in> set rest. \<not> is_ocsp_check c)" for t
  proof -
    obtain r' t1 where l: "call_crl_cache_isvalid E ih sn (force_crl_refresh t) t = (r', t1)"
      by (cases "call_crl_cache_isvalid E ih sn (force_crl_refresh t) t")
    from call_crl_cache_isvalid_result [OF l] l show ?thesis
      by (simp add: cmd_isvalid_again_retry)
  qed
  show ?thesis
  proof (cases di)
    case True
    with retry show ?thesis by simp
  next
    case False
    show ?thesis
    proof (cases "r = CRL_CACHE_DONTKNOW")
      case nd: False
      with first c1 False show ?thesis
        by (cases r) (simp_all add: cmd_isvalid_again_first)
    next
      case dk: True
      obtain err s2 where inq: "inquire_cert_and_load_crl E s1 = (err, s2)"
        by (cases "inquire_cert_and_load_crl E s1")
      from inquire_cert_and_load_crl_calls [OF inq] obtain e v rest
        where c2: "calls s2 = calls s1 @ Assuan_inquire ''SENDCERT'' 0 e v # rest"
          and rest: "\<forall>c \<in> set rest. \<not> is_inquire c \<and> \<not> is_crl_lookup c \<and> \<not> is_ocsp_check c"
        by blast
      from retry [of s2] obtain r' rest'
        where c3: "calls (snd (cmd_isvalid_again E False fdr ih sn False True s2))
             = calls s2 @ Crl_cache_isvalid ih sn (force_crl_refresh s2) r' # rest'"
          and rest': "\<forall>c \<in> set rest'. \<not> is_ocsp_check c" by blast
      show ?thesis
      proof (cases "err = GPG_ERR_NO_ERROR")
        case True
        with first dk inq False c1 c2 c3 rest rest' show ?thesis
          by (auto simp add: cmd_isvalid_again_first)
      next
        case ne: False
        with first dk inq False c1 c2 rest show ?thesis
          by (simp add: cmd_isvalid_again_first)
      qed
    qed
  qed
qed

text \<open>
  Claim C2, as amended. For every ISVALID argument (after the options are stripped):
  if it contains a \<open>.\<close> the command takes the CRL path whatever its length: with
  \<open>--only-ocsp\<close> it returns no CRL known, and otherwise its first call is the lookup
  in the CRL cache of the text before the first \<open>.\<close> and the text after it, and it
  never calls the OCSP checker. If it contains no \<open>.\<close> the command takes the OCSP
  path exactly when the part before the first space is 40 characters long, whatever
  the characters are: it returns not supported when OCSP is disabled and the answer of
  the OCSP checker otherwise. Every other argument returns the parameter error and
  leaves the session and the collaborators as they were.
\<close>

theorem cmd_isvalid_routing:
  "(CHR ''.'' \<in> set line \<longrightarrow>
      (if only_ocsp then cmd_isvalid E only_ocsp fdr line s = (Returned GPG_ERR_NO_CRL_KNOWN, s)
       else \<exists>r rest.
              new_calls s (snd (cmd_isvalid E only_ocsp fdr line s))
                = Crl_cache_isvalid (takeWhile (\<lambda>c. c \<noteq> CHR ''.'') line)
                    (Some (tl (dropWhile (\<lambda>c. c \<noteq> CHR ''.'') line))) (force_crl_refresh s) r # rest
              \<and> (\<forall>c \<in> set rest. \<not> is_ocsp_check c)))
   \<and> (CHR ''.'' \<notin> set line \<and> length (takeWhile (\<lambda>c. c \<noteq> CHR '' '') line) = 40 \<longrightarrow>
        cmd_isvalid E only_ocsp fdr line s =
          (if allow_ocsp (opt E)
           then (case call_ocsp_isvalid E None fdr s of (err, s1) \<Rightarrow> (Returned err, s1))
           else (Returned GPG_ERR_NOT_SUPPORTED, s)))
   \<and> (CHR ''.'' \<notin> set line \<and> length (takeWhile (\<lambda>c. c \<noteq> CHR '' '') line) \<noteq> 40 \<longrightarrow>
        cmd_isvalid E only_ocsp fdr line s = (Returned GPG_ERR_ASS_PARAMETER, s))"
proof (intro conjI impI)
  assume dot: "CHR ''.'' \<in> set line"
  show "if only_ocsp then cmd_isvalid E only_ocsp fdr line s = (Returned GPG_ERR_NO_CRL_KNOWN, s)
       else \<exists>r rest.
              new_calls s (snd (cmd_isvalid E only_ocsp fdr line s))
                = Crl_cache_isvalid (takeWhile (\<lambda>c. c \<noteq> CHR ''.'') line)
                    (Some (tl (dropWhile (\<lambda>c. c \<noteq> CHR ''.'') line))) (force_crl_refresh s) r # rest
              \<and> (\<forall>c \<in> set rest. \<not> is_ocsp_check c)"
  proof (cases only_ocsp)
    case True
    then show ?thesis
      by (simp add: cmd_isvalid_dot [OF dot] cmd_isvalid_again.simps leave_cmd_def)
  next
    case False
    from cmd_isvalid_again_crl_calls
      [of E fdr "takeWhile (\<lambda>c. c \<noteq> CHR ''.'') line"
          "Some (tl (dropWhile (\<lambda>c. c \<noteq> CHR ''.'') line))" False s]
    obtain r rest where
      "calls (snd (cmd_isvalid E False fdr line s))
         = calls s @ Crl_cache_isvalid (takeWhile (\<lambda>c. c \<noteq> CHR ''.'') line)
                    (Some (tl (dropWhile (\<lambda>c. c \<noteq> CHR ''.'') line))) (force_crl_refresh s) r # rest"
      and "\<forall>c \<in> set rest. \<not> is_ocsp_check c"
      unfolding cmd_isvalid_dot [OF dot] by blast
    with False show ?thesis
      by (simp add: new_calls_def)
  qed
next
  assume "CHR ''.'' \<notin> set line \<and> length (takeWhile (\<lambda>c. c \<noteq> CHR '' '') line) = 40"
  then show "cmd_isvalid E only_ocsp fdr line s =
          (if allow_ocsp (opt E)
           then (case call_ocsp_isvalid E None fdr s of (err, s1) \<Rightarrow> (Returned err, s1))
           else (Returned GPG_ERR_NOT_SUPPORTED, s))"
    by (simp add: cmd_isvalid_def cmd_isvalid_again.simps leave_cmd_def)
next
  assume "CHR ''.'' \<notin> set line \<and> length (takeWhile (\<lambda>c. c \<noteq> CHR '' '') line) \<noteq> 40"
  then show "cmd_isvalid E only_ocsp fdr line s = (Returned GPG_ERR_ASS_PARAMETER, s)"
    by (simp add: cmd_isvalid_def leave_cmd_def)
qed

theorem cmd_isvalid_routing_witness:
  "(\<exists>r rest. new_calls (scripted_session [] [CRL_CACHE_VALID])
       (snd (cmd_isvalid (scripted_collab \<lparr>allow_ocsp = True, keyserver = []\<rparr>) False False
               ''ab.cd'' (scripted_session [] [CRL_CACHE_VALID])))
     = Crl_cache_isvalid ''ab'' (Some ''cd'') 0 r # rest)
   \<and> cmd_isvalid (scripted_collab \<lparr>allow_ocsp = False, keyserver = []\<rparr>) False False
        ''0123456789ABCDEF0123456789abcdef01234567 x'' (scripted_session [] [])
     = (Returned GPG_ERR_NOT_SUPPORTED, scripted_session [] [])
   \<and> cmd_isvalid (scripted_collab \<lparr>allow_ocsp = True, keyserver = []\<rparr>) False False
        ''0123456789'' (scripted_session [] [])
     = (Returned GPG_ERR_ASS_PARAMETER, scripted_session [] [])"
proof -
  have f: "force_crl_refresh (scripted_session [] [CRL_CACHE_VALID]) = 0"
    by (simp add: scripted_session_def)
  have o: "\<not> allow_ocsp (opt (scripted_collab \<lparr>allow_ocsp = False, keyserver = []\<rparr>))"
    by (simp add: scripted_collab_def)
  from cmd_isvalid_routing
      [of "''ab.cd''" False "scripted_collab \<lparr>allow_ocsp = True, keyserver = []\<rparr>" False
          "scripted_session [] [CRL_CACHE_VALID]"]
    cmd_isvalid_routing
      [of "''0123456789ABCDEF0123456789abcdef01234567 x''" False
          "scripted_collab \<lparr>allow_ocsp = False, keyserver = []\<rparr>" False "scripted_session [] []"]
    cmd_isvalid_routing
      [of "''0123456789''" False "scripted_collab \<lparr>allow_ocsp = True, keyserver = []\<rparr>" False
          "scripted_session [] []"]
  show ?thesis
    by (simp add: f o) blast
qed

text \<open>
  Claim C2 as it was stated fails: forty times \<open>z\<close> is not forty hex characters,
  and the command takes the OCSP path (it calls the OCSP checker and returns its
  answer) instead of returning a parameter error.
\<close>

theorem cmd_isvalid_routing_counterexample:
  "\<not> hexdigitp CHR ''z''
   \<and> cmd_isvalid (scripted_collab \<lparr>allow_ocsp = True, keyserver = []\<rparr>) False False
        ''zzzzzzzzzzzzzzzzzzzzzzzzzzzzzzzzzzzzzzzz'' (scripted_session [] [])
     = (Returned GPG_ERR_NO_ERROR,
        \<lparr>have_assuan_ctx = True, keyservers = [], force_crl_refresh = 0,
         world = \<lparr>inquire_replies = [], crl_replies = []\<rparr>,
         calls = [Ocsp_isvalid None False GPG_ERR_NO_ERROR]\<rparr>)"
  by (simp add: hexdigitp_def digitp_def cmd_isvalid_def cmd_isvalid_again.simps leave_cmd_def
      scripted_collab_def scripted_session_def call_ocsp_isvalid_def invoke_def)

subsection \<open>Empty and failed inquiries\<close>

lemma call_assuan_inquire_after:
  "assuan_inquire E kw n (world s) = ((e, v), w) \<Longrightarrow>
     call_assuan_inquire E kw n s = ((e, v), after_inquiry s kw n e v w)"
  by (simp add: call_assuan_inquire_def invoke_def after_inquiry_def)

text \<open>
  Claim C4. In CACHECERT and VALIDATE (which inquire \<open>TARGETCERT\<close>, or
  \<open>CERTLIST\<close> with \<open>--tls\<close>, at once), in CHECKCRL and CHECKOCSP (which inquire
  \<open>TARGETCERT\<close> when no fingerprint is given or no certificate is cached for it)
  and in ISVALID (which inquires \<open>SENDCERT\<close> when the first lookup in the CRL cache
  does not know): when the peer answers the inquiry with success and a payload of
  length zero, the command returns the missing-certificate error, which is another
  code than the no-data error and the not-trusted error; when the inquiry fails, the
  command returns the error of the inquiry. In both cases the command ends with the
  inquiry: the session is the one the inquiry left.
\<close>

theorem inquiry_missing_cert:
  "(assuan_inquire E ''TARGETCERT'' MAX_CERT_LENGTH (world s) = ((e, v), w) \<longrightarrow>
      (e \<noteq> GPG_ERR_NO_ERROR \<longrightarrow>
         cmd_cachecert E s = (e, after_inquiry s ''TARGETCERT'' MAX_CERT_LENGTH e v w)
         \<and> cmd_validate E systrust False nocrl s
             = (e, after_inquiry s ''TARGETCERT'' MAX_CERT_LENGTH e v w))
      \<and> (e = GPG_ERR_NO_ERROR \<and> v = [] \<longrightarrow>
         cmd_cachecert E s
           = (GPG_ERR_MISSING_CERT, after_inquiry s ''TARGETCERT'' MAX_CERT_LENGTH e v w)
         \<and> cmd_validate E systrust False nocrl s
             = (GPG_ERR_MISSING_CERT, after_inquiry s ''TARGETCERT'' MAX_CERT_LENGTH e v w)))
   \<and> (assuan_inquire E ''CERTLIST'' MAX_CERTLIST_LENGTH (world s) = ((e, v), w) \<longrightarrow>
      (e \<noteq> GPG_ERR_NO_ERROR \<longrightarrow>
         cmd_validate E systrust True nocrl s
           = (e, after_inquiry s ''CERTLIST'' MAX_CERTLIST_LENGTH e v w))
      \<and> (e = GPG_ERR_NO_ERROR \<and> v = [] \<longrightarrow>
         cmd_validate E systrust True nocrl s
           = (GPG_ERR_MISSING_CERT, after_inquiry s ''CERTLIST'' MAX_CERTLIST_LENGTH e v w)))
   \<and> ((case get_fingerprint_from_line line of
          None \<Rightarrow> (None, s)
        | Some fpr \<Rightarrow> call_get_cert_byfpr E fpr s) = (None, s0)
       \<and> assuan_inquire E ''TARGETCERT'' MAX_CERT_LENGTH (world s0) = ((e, v), w) \<longrightarrow>
      (e \<noteq> GPG_ERR_NO_ERROR \<longrightarrow>
         cmd_checkcrl E line s = (e, after_inquiry s0 ''TARGETCERT'' MAX_CERT_LENGTH e v w)
         \<and> cmd_checkocsp E fdr line s
             = (e, after_inquiry s0 ''TARGETCERT'' MAX_CERT_LENGTH e v w))
      \<and> (e = GPG_ERR_NO_ERROR \<and> v = [] \<longrightarrow>
         cmd_checkcrl E line s
           = (GPG_ERR_MISSING_CERT, after_inquiry s0 ''TARGETCERT'' MAX_CERT_LENGTH e v w)
         \<and> cmd_checkocsp E fdr line s
             = (GPG_ERR_MISSING_CERT, after_inquiry s0 ''TARGETCERT'' MAX_CERT_LENGTH e v w)))
   \<and> (CHR ''.'' \<in> set line
       \<and> call_crl_cache_isvalid E (takeWhile (\<lambda>c. c \<noteq> CHR ''.'') line)
            (Some (tl (dropWhile (\<lambda>c. c \<noteq> CHR ''.'') line))) (force_crl_refresh s) s
          = (CRL_CACHE_DONTKNOW, s0)
       \<and> assuan_inquire E ''SENDCERT'' 0 (world s0) = ((e, v), w) \<longrightarrow>
      (e \<noteq> GPG_ERR_NO_ERROR \<longrightarrow>
         cmd_isvalid E False fdr line s = (Returned e, after_inquiry s0 ''SENDCERT'' 0 e v w))
      \<and> (e = GPG_ERR_NO_ERROR \<and> v = [] \<longrightarrow>
         cmd_isvalid E False fdr line s
           = (Returned GPG_ERR_MISSING_CERT, after_inquiry s0 ''SENDCERT'' 0 e v w)))
   \<and> GPG_ERR_MISSING_CERT \<noteq> GPG_ERR_NO_DATA
   \<and> GPG_ERR_MISSING_CERT \<noteq> GPG_ERR_NOT_TRUSTED"
proof (intro conjI impI; (elim conjE)?)
  assume "assuan_inquire E ''TARGETCERT'' MAX_CERT_LENGTH (world s) = ((e, v), w)"
  note inq = call_assuan_inquire_after [OF this]
  {
    assume "e \<noteq> GPG_ERR_NO_ERROR"
    then show "cmd_cachecert E s = (e, after_inquiry s ''TARGETCERT'' MAX_CERT_LENGTH e v w)"
      by (simp add: cmd_cachecert_def inq leave_cmd_def)
  next
    assume "e \<noteq> GPG_ERR_NO_ERROR"
    then show "cmd_validate E systrust False nocrl s
             = (e, after_inquiry s ''TARGETCERT'' MAX_CERT_LENGTH e v w)"
      by (simp add: cmd_validate_def inq leave_cmd_def)
  next
    assume "e = GPG_ERR_NO_ERROR" "v = []"
    then show "cmd_cachecert E s
           = (GPG_ERR_MISSING_CERT, after_inquiry s ''TARGETCERT'' MAX_CERT_LENGTH e v w)"
      using inq by (simp add: cmd_cachecert_def leave_cmd_def)
  next
    assume "e = GPG_ERR_NO_ERROR" "v = []"
    then show "cmd_validate E systrust False nocrl s
             = (GPG_ERR_MISSING_CERT, after_inquiry s ''TARGETCERT'' MAX_CERT_LENGTH e v w)"
      using inq by (simp add: cmd_validate_def leave_cmd_def)
  }
next
  assume "assuan_inquire E ''CERTLIST'' MAX_CERTLIST_LENGTH (world s) = ((e, v), w)"
  note inq = call_assuan_inquire_after [OF this]
  {
    assume "e \<noteq> GPG_ERR_NO_ERROR"
    then show "cmd_validate E systrust True nocrl s
           = (e, after_inquiry s ''CERTLIST'' MAX_CERTLIST_LENGTH e v w)"
      by (simp add: cmd_validate_def inq leave_cmd_def)
  next
    assume "e = GPG_ERR_NO_ERROR" "v = []"
    then show "cmd_validate E systrust True nocrl s
           = (GPG_ERR_MISSING_CERT, after_inquiry s ''CERTLIST'' MAX_CERTLIST_LENGTH e v w)"
      using inq by (simp add: cmd_validate_def leave_cmd_def)
  }
next
  assume byfpr: "(case get_fingerprint_from_line line of
          None \<Rightarrow> (None, s)
        | Some fpr \<Rightarrow> call_get_cert_byfpr E fpr s) = (None, s0)"
    and "assuan_inquire E ''TARGETCERT'' MAX_CERT_LENGTH (world s0) = ((e, v), w)"
  note inq = call_assuan_inquire_after [OF this(2)]
  {
    assume "e \<noteq> GPG_ERR_NO_ERROR"
    then show "cmd_checkcrl E line s = (e, after_inquiry s0 ''TARGETCERT'' MAX_CERT_LENGTH e v w)"
      by (simp add: cmd_checkcrl_def byfpr inq leave_cmd_def)
  next
    assume "e \<noteq> GPG_ERR_NO_ERROR"
    then show "cmd_checkocsp E fdr line s
             = (e, after_inquiry s0 ''TARGETCERT'' MAX_CERT_LENGTH e v w)"
      by (simp add: cmd_checkocsp_def byfpr inq leave_cmd_def)
  next
    assume "e = GPG_ERR_NO_ERROR" "v = []"
    then show "cmd_checkcrl E line s
           = (GPG_ERR_MISSING_CERT, after_inquiry s0 ''TARGETCERT'' MAX_CERT_LENGTH e v w)"
      using inq by (simp add: cmd_checkcrl_def byfpr leave_cmd_def)
  next
    assume "e = GPG_ERR_NO_ERROR" "v = []"
    then show "cmd_checkocsp E fdr line s
             = (GPG_ERR_MISSING_CERT, after_inquiry s0 ''TARGETCERT'' MAX_CERT_LENGTH e v w)"
      using inq by (simp add: cmd_checkocsp_def byfpr leave_cmd_def)
  }
next
  assume dot: "CHR ''.'' \<in> set line"
    and look: "call_crl_cache_isvalid E (takeWhile (\<lambda>c. c \<noteq> CHR ''.'') line)
            (Some (tl (dropWhile (\<lambda>c. c \<noteq> CHR ''.'') line))) (force_crl_refresh s) s
          = (CRL_CACHE_DONTKNOW, s0)"
    and "assuan_inquire E ''SENDCERT'' 0 (world s0) = ((e, v), w)"
  note inq = call_assuan_inquire_after [OF this(3)]
  {
    assume "e \<noteq> GPG_ERR_NO_ERROR"
    then show "cmd_isvalid E False fdr line s = (Returned e, after_inquiry s0 ''SENDCERT'' 0 e v w)"
      by (simp add: cmd_isvalid_dot [OF dot] cmd_isvalid_again_first look
          inquire_cert_and_load_crl_def inq)
  next
    assume "e = GPG_ERR_NO_ERROR" "v = []"
    then show "cmd_isvalid E False fdr line s
           = (Returned GPG_ERR_MISSING_CERT, after_inquiry s0 ''SENDCERT'' 0 e v w)"
      using inq
      by (simp add: cmd_isvalid_dot [OF dot] cmd_isvalid_again_first look
          inquire_cert_and_load_crl_def)
  }
qed simp_all

theorem inquiry_missing_cert_witness:
  "fst (cmd_cachecert (scripted_collab \<lparr>allow_ocsp = True, keyserver = []\<rparr>)
          (scripted_session [(GPG_ERR_NO_ERROR, [])] [])) = GPG_ERR_MISSING_CERT
   \<and> fst (cmd_validate (scripted_collab \<lparr>allow_ocsp = True, keyserver = []\<rparr>) False False False
          (scripted_session [(GPG_ERR_OTHER 7, [])] [])) = GPG_ERR_OTHER 7
   \<and> fst (cmd_validate (scripted_collab \<lparr>allow_ocsp = True, keyserver = []\<rparr>) False True False
          (scripted_session [(GPG_ERR_NO_ERROR, [])] [])) = GPG_ERR_MISSING_CERT
   \<and> fst (cmd_checkcrl (scripted_collab \<lparr>allow_ocsp = True, keyserver = []\<rparr>) []
          (scripted_session [(GPG_ERR_NO_ERROR, [])] [])) = GPG_ERR_MISSING_CERT
   \<and> fst (cmd_checkocsp (scripted_collab \<lparr>allow_ocsp = True, keyserver = []\<rparr>) False []
          (scripted_session [(GPG_ERR_OTHER 7, [])] [])) = GPG_ERR_OTHER 7
   \<and> fst (cmd_isvalid (scripted_collab \<lparr>allow_ocsp = True, keyserver = []\<rparr>) False False ''ab.cd''
          (scripted_session [(GPG_ERR_NO_ERROR, [])] [CRL_CACHE_DONTKNOW]))
       = Returned GPG_ERR_MISSING_CERT"
proof -
  let ?E = "scripted_collab \<lparr>allow_ocsp = True, keyserver = []\<rparr>"
  let ?s = "scripted_session [(GPG_ERR_NO_ERROR, [])] []"
  let ?t = "scripted_session [(GPG_ERR_OTHER 7, [])] []"
  let ?u = "scripted_session [(GPG_ERR_NO_ERROR, [])] [CRL_CACHE_DONTKNOW]"
  let ?w = "\<lparr>inquire_replies = [], crl_replies = []\<rparr>"
  let ?u1 = "snd (call_crl_cache_isvalid ?E ''ab'' (Some ''cd'') (force_crl_refresh ?u) ?u)"
  have target: "assuan_inquire ?E ''TARGETCERT'' MAX_CERT_LENGTH (world ?s)
                  = ((GPG_ERR_NO_ERROR, []), ?w)"
    and target_fails: "assuan_inquire ?E ''TARGETCERT'' MAX_CERT_LENGTH (world ?t)
                  = ((GPG_ERR_OTHER 7, []), ?w)"
    and certlist: "assuan_inquire ?E ''CERTLIST'' MAX_CERTLIST_LENGTH (world ?s)
                  = ((GPG_ERR_NO_ERROR, []), ?w)"
    by (simp_all add: scripted_collab_def scripted_session_def)
  have byfpr: "(case get_fingerprint_from_line [] of
                  None \<Rightarrow> (None, x)
                | Some fpr \<Rightarrow> call_get_cert_byfpr ?E fpr x) = (None, x)" for x
    by (simp add: get_fingerprint_from_line_def)
  have dot: "CHR ''.'' \<in> set ''ab.cd''"
    by simp
  have look: "call_crl_cache_isvalid ?E (takeWhile (\<lambda>c. c \<noteq> CHR ''.'') ''ab.cd'')
                (Some (tl (dropWhile (\<lambda>c. c \<noteq> CHR ''.'') ''ab.cd''))) (force_crl_refresh ?u) ?u
              = (CRL_CACHE_DONTKNOW, ?u1)"
    by (simp add: call_crl_cache_isvalid_def invoke_def scripted_collab_def scripted_session_def)
  have sendcert: "assuan_inquire ?E ''SENDCERT'' 0 (world ?u1) = ((GPG_ERR_NO_ERROR, []), ?w)"
    by (simp add: call_crl_cache_isvalid_def invoke_def scripted_collab_def scripted_session_def)
  note empty = inquiry_missing_cert
    [where E = ?E and s = ?s and e = GPG_ERR_NO_ERROR and v = "[]" and w = ?w and line = "[]"
       and ?s0.0 = ?s and systrust = False and nocrl = False]
  note fails = inquiry_missing_cert
    [where E = ?E and s = ?t and e = "GPG_ERR_OTHER 7" and v = "[]" and w = ?w and line = "[]"
       and ?s0.0 = ?t and systrust = False and nocrl = False and fdr = False]
  note isvalid = inquiry_missing_cert
    [where E = ?E and s = ?u and e = GPG_ERR_NO_ERROR and v = "[]" and w = ?w
       and line = "''ab.cd''" and ?s0.0 = ?u1 and fdr = False]
  from empty target have 1:
    "cmd_cachecert ?E ?s
       = (GPG_ERR_MISSING_CERT, after_inquiry ?s ''TARGETCERT'' MAX_CERT_LENGTH GPG_ERR_NO_ERROR [] ?w)"
    by blast
  from fails target_fails have 2:
    "cmd_validate ?E False False False ?t
       = (GPG_ERR_OTHER 7, after_inquiry ?t ''TARGETCERT'' MAX_CERT_LENGTH (GPG_ERR_OTHER 7) [] ?w)"
    by simp
  from empty certlist have 3:
    "cmd_validate ?E False True False ?s
       = (GPG_ERR_MISSING_CERT, after_inquiry ?s ''CERTLIST'' MAX_CERTLIST_LENGTH GPG_ERR_NO_ERROR [] ?w)"
    by blast
  from empty target byfpr [of ?s] have 4:
    "cmd_checkcrl ?E [] ?s
       = (GPG_ERR_MISSING_CERT, after_inquiry ?s ''TARGETCERT'' MAX_CERT_LENGTH GPG_ERR_NO_ERROR [] ?w)"
    by blast
  from fails target_fails byfpr [of ?t] have 5:
    "cmd_checkocsp ?E False [] ?t
       = (GPG_ERR_OTHER 7, after_inquiry ?t ''TARGETCERT'' MAX_CERT_LENGTH (GPG_ERR_OTHER 7) [] ?w)"
    by simp
  from isvalid dot look sendcert have 6:
    "cmd_isvalid ?E False False ''ab.cd'' ?u
       = (Returned GPG_ERR_MISSING_CERT, after_inquiry ?u1 ''SENDCERT'' 0 GPG_ERR_NO_ERROR [] ?w)"
    by blast
  show ?thesis
    by (simp add: 1 2 3 4 5 6)
qed

subsection \<open>The keyserver registry\<close>

lemma ensure_keyserver_loop_ok:
  "\<forall>u \<in> set ks. fst (http_parse_uri E u True) = GPG_ERR_NO_ERROR \<Longrightarrow>
     ensure_keyserver_loop E ks s
       = (GPG_ERR_NO_ERROR, s\<lparr>keyservers := rev (map (uri_item_of E) ks) @ keyservers s\<rparr>)"
  by (induction ks arbitrary: s)
     (auto simp: make_keyserver_item_def uri_item_of_def split: prod.splits)

lemma ensure_keyserver_loop_quiet:
  "calls (snd (ensure_keyserver_loop E ks s)) = calls s
   \<and> world (snd (ensure_keyserver_loop E ks s)) = world s"
  by (induction ks arbitrary: s) (auto split: sum.splits)

lemma ensure_keyserver_quiet:
  "calls (snd (ensure_keyserver E s)) = calls s \<and> world (snd (ensure_keyserver E s)) = world s"
  by (simp add: ensure_keyserver_def ensure_keyserver_loop_quiet split: sum.splits)

lemma map_uri_items: "map (uri \<circ> uri_item_of E) ks = ks"
  by (induction ks) (simp_all add: uri_item_of_def)

text \<open>
  Claim C3, as amended. \<open>ensure_keyserver\<close> leaves a session whose registry is not
  empty as it is. For a session whose registry is empty and a configuration
  \<open>opt.keyserver\<close> that is not empty and whose URIs all parse, it fills the registry
  with the configured URIs in the reverse of the order in which \<open>opt.keyserver\<close>
  holds them (each item is put in front of the ones before it), so that iterating the
  registry from the front yields the configured URIs last to first. With no
  configuration it fills the registry with the one default URI, when that parses.
\<close>

theorem ensure_keyserver_seeds:
  "(keyservers s \<noteq> [] \<longrightarrow> ensure_keyserver E s = (GPG_ERR_NO_ERROR, s))
   \<and> (keyservers s = [] \<and> keyserver (opt E) \<noteq> []
        \<and> (\<forall>u \<in> set (keyserver (opt E)). fst (http_parse_uri E u True) = GPG_ERR_NO_ERROR) \<longrightarrow>
        ensure_keyserver E s
          = (GPG_ERR_NO_ERROR, s\<lparr>keyservers := rev (map (uri_item_of E) (keyserver (opt E)))\<rparr>)
        \<and> map uri (keyservers (snd (ensure_keyserver E s))) = rev (keyserver (opt E)))
   \<and> (keyservers s = [] \<and> keyserver (opt E) = []
        \<and> fst (http_parse_uri E (DIRMNGR_DEFAULT_KEYSERVER E) True) = GPG_ERR_NO_ERROR \<longrightarrow>
        ensure_keyserver E s
          = (GPG_ERR_NO_ERROR, s\<lparr>keyservers := [uri_item_of E (DIRMNGR_DEFAULT_KEYSERVER E)]\<rparr>)
        \<and> map uri (keyservers (snd (ensure_keyserver E s))) = [DIRMNGR_DEFAULT_KEYSERVER E])"
proof (intro conjI impI)
  assume "keyservers s \<noteq> []"
  then show "ensure_keyserver E s = (GPG_ERR_NO_ERROR, s)"
    by (simp add: ensure_keyserver_def)
next
  assume a: "keyservers s = [] \<and> keyserver (opt E) \<noteq> []
        \<and> (\<forall>u \<in> set (keyserver (opt E)). fst (http_parse_uri E u True) = GPG_ERR_NO_ERROR)"
  then show r: "ensure_keyserver E s
          = (GPG_ERR_NO_ERROR, s\<lparr>keyservers := rev (map (uri_item_of E) (keyserver (opt E)))\<rparr>)"
    by (simp add: ensure_keyserver_def ensure_keyserver_loop_ok)
  show "map uri (keyservers (snd (ensure_keyserver E s))) = rev (keyserver (opt E))"
    by (simp add: r rev_map map_uri_items)
next
  assume a: "keyservers s = [] \<and> keyserver (opt E) = []
        \<and> fst (http_parse_uri E (DIRMNGR_DEFAULT_KEYSERVER E) True) = GPG_ERR_NO_ERROR"
  then show r: "ensure_keyserver E s
          = (GPG_ERR_NO_ERROR, s\<lparr>keyservers := [uri_item_of E (DIRMNGR_DEFAULT_KEYSERVER E)]\<rparr>)"
    by (auto simp add: ensure_keyserver_def make_keyserver_item_def uri_item_of_def split: prod.splits)
  show "map uri (keyservers (snd (ensure_keyserver E s))) = [DIRMNGR_DEFAULT_KEYSERVER E]"
    by (simp add: r uri_item_of_def)
qed

theorem ensure_keyserver_seeds_witness:
  "ensure_keyserver (scripted_collab \<lparr>allow_ocsp = True, keyserver = [''hkp://a'', ''hkp://b'']\<rparr>)
     ((scripted_session [] [])\<lparr>keyservers := [\<lparr>uri = ''hkp://old'', parsed_uri = Parsed_uri ''hkp://old''\<rparr>]\<rparr>)
   = (GPG_ERR_NO_ERROR,
      (scripted_session [] [])\<lparr>keyservers := [\<lparr>uri = ''hkp://old'', parsed_uri = Parsed_uri ''hkp://old''\<rparr>]\<rparr>)
   \<and> map uri (keyservers (snd (ensure_keyserver
        (scripted_collab \<lparr>allow_ocsp = True, keyserver = [''hkp://a'', ''hkp://b'']\<rparr>)
        (scripted_session [] []))))
     = [''hkp://b'', ''hkp://a'']
   \<and> map uri (keyservers (snd (ensure_keyserver
        (scripted_collab \<lparr>allow_ocsp = True, keyserver = []\<rparr>) (scripted_session [] []))))
     = [''hkps://keys.example.org'']"
proof -
  let ?E = "scripted_collab \<lparr>allow_ocsp = True, keyserver = [''hkp://a'', ''hkp://b'']\<rparr>"
  let ?D = "scripted_collab \<lparr>allow_ocsp = True, keyserver = []\<rparr>"
  let ?s = "scripted_session [] []"
  let ?old = "?s\<lparr>keyservers := [\<lparr>uri = ''hkp://old'', parsed_uri = Parsed_uri ''hkp://old''\<rparr>]\<rparr>"
  have h1: "keyservers ?old \<noteq> []" by simp
  have h2: "keyservers ?s = [] \<and> keyserver (opt ?E) \<noteq> []
        \<and> (\<forall>u \<in> set (keyserver (opt ?E)). fst (http_parse_uri ?E u True) = GPG_ERR_NO_ERROR)"
    by (simp add: scripted_collab_def scripted_session_def)
  have h3: "keyservers ?s = [] \<and> keyserver (opt ?D) = []
        \<and> fst (http_parse_uri ?D (DIRMNGR_DEFAULT_KEYSERVER ?D) True) = GPG_ERR_NO_ERROR"
    by (simp add: scripted_collab_def scripted_session_def)
  have k: "keyserver (opt ?E) = [''hkp://a'', ''hkp://b'']"
    "DIRMNGR_DEFAULT_KEYSERVER ?D = ''hkps://keys.example.org''"
    by (simp_all add: scripted_collab_def)
  from ensure_keyserver_seeds [of ?old ?E] h1
  have 1: "ensure_keyserver ?E ?old = (GPG_ERR_NO_ERROR, ?old)" by blast
  from ensure_keyserver_seeds [of ?s ?E] h2
  have 2: "map uri (keyservers (snd (ensure_keyserver ?E ?s))) = rev (keyserver (opt ?E))"
    by blast
  from ensure_keyserver_seeds [of ?s ?D] h3
  have 3: "map uri (keyservers (snd (ensure_keyserver ?D ?s))) = [DIRMNGR_DEFAULT_KEYSERVER ?D]"
    by blast
  from 1 2 3 show ?thesis by (simp add: k)
qed

text \<open>
  Claim C3 as it was stated fails: with the two URIs \<open>hkp://a\<close>, \<open>hkp://b\<close>
  configured in this order, the registry holds \<open>hkp://b\<close> in front of \<open>hkp://a\<close>.
\<close>

theorem ensure_keyserver_seeds_counterexample:
  "ensure_keyserver (scripted_collab \<lparr>allow_ocsp = True, keyserver = [''hkp://a'', ''hkp://b'']\<rparr>)
     (scripted_session [] [])
   = (GPG_ERR_NO_ERROR,
      \<lparr>have_assuan_ctx = True,
       keyservers = [\<lparr>uri = ''hkp://b'', parsed_uri = Parsed_uri ''hkp://b''\<rparr>,
                     \<lparr>uri = ''hkp://a'', parsed_uri = Parsed_uri ''hkp://a''\<rparr>],
       force_crl_refresh = 0, world = \<lparr>inquire_replies = [], crl_replies = []\<rparr>, calls = []\<rparr>)"
  by (simp add: ensure_keyserver_def make_keyserver_item_def scripted_collab_def scripted_session_def)




subsection \<open>KS_PUT\<close>

lemma call_assuan_inquire_calls:
  "call_assuan_inquire E kw n s = ((e, v), s1) \<Longrightarrow> calls s1 = calls s @ [Assuan_inquire kw n e v]"
  unfolding call_assuan_inquire_def by (auto dest: invoke_result)

lemma call_ks_action_put_calls:
  "call_ks_action_put E ks v i s = (e, s1) \<Longrightarrow> calls s1 = calls s @ [Ks_action_put ks v i e]"
  unfolding call_ks_action_put_def by (auto dest: invoke_result)

text \<open>
  Claim C9. In a KS_PUT invocation, when the \<open>KEYBLOCK\<close> inquiry succeeds with an
  empty payload, the command returns the missing-certificate error, and the
  \<open>KEYBLOCK\<close> inquiry is the only call it made: no \<open>KEYBLOCK_INFO\<close> inquiry is
  issued and no key is sent to a keyserver.
\<close>

theorem cmd_ks_put_empty_keyblock:
  assumes "Assuan_inquire ''KEYBLOCK'' n GPG_ERR_NO_ERROR []
             \<in> set (new_calls s (snd (cmd_ks_put E s)))"
  shows "fst (cmd_ks_put E s) = GPG_ERR_MISSING_CERT
         \<and> new_calls s (snd (cmd_ks_put E s))
             = [Assuan_inquire ''KEYBLOCK'' MAX_KEYBLOCK_LENGTH GPG_ERR_NO_ERROR []]
         \<and> (\<forall>c \<in> set (new_calls s (snd (cmd_ks_put E s))).
               \<not> is_keyblock_info_inquiry c \<and> \<not> is_ks_action_put c)"
proof -
  obtain err0 s0 where ens: "ensure_keyserver E s = (err0, s0)"
    by (metis prod.exhaust)
  with ensure_keyserver_quiet [of E s] have c0: "calls s0 = calls s" by simp
  obtain e v s1 where inq: "call_assuan_inquire E ''KEYBLOCK'' MAX_KEYBLOCK_LENGTH s0 = ((e, v), s1)"
    by (metis prod.exhaust)
  note c1 = call_assuan_inquire_calls [OF inq]
  obtain e2 info s2 where inq2:
    "call_assuan_inquire E ''KEYBLOCK_INFO'' MAX_KEYBLOCK_LENGTH s1 = ((e2, info), s2)"
    by (metis prod.exhaust)
  note c2 = call_assuan_inquire_calls [OF inq2]
  obtain e3 s3 where put: "call_ks_action_put E (keyservers s2) v info s2 = (e3, s3)"
    by (metis prod.exhaust)
  note c3 = call_ks_action_put_calls [OF put]
  have res: "cmd_ks_put E s =
      (if err0 \<noteq> GPG_ERR_NO_ERROR then (err0, s0)
       else if e \<noteq> GPG_ERR_NO_ERROR then (e, s1)
       else if v = [] then (GPG_ERR_MISSING_CERT, s1)
       else if e2 \<noteq> GPG_ERR_NO_ERROR then (e2, s2)
       else (e3, s3))"
    by (simp add: cmd_ks_put_def ens inq inq2 put leave_cmd_def)
  from assms have "err0 = GPG_ERR_NO_ERROR \<and> e = GPG_ERR_NO_ERROR \<and> v = []"
    by (auto simp: res new_calls_def c0 c1 c2 c3 split: if_splits)
  then show ?thesis
    by (simp add: res new_calls_def c0 c1)
qed

theorem cmd_ks_put_empty_keyblock_witness:
  "fst (cmd_ks_put (scripted_collab \<lparr>allow_ocsp = True, keyserver = []\<rparr>) (scripted_session [] []))
     = GPG_ERR_MISSING_CERT
   \<and> new_calls (scripted_session [] [])
        (snd (cmd_ks_put (scripted_collab \<lparr>allow_ocsp = True, keyserver = []\<rparr>) (scripted_session [] [])))
     = [Assuan_inquire ''KEYBLOCK'' MAX_KEYBLOCK_LENGTH GPG_ERR_NO_ERROR []]"
proof -
  let ?E = "scripted_collab \<lparr>allow_ocsp = True, keyserver = []\<rparr>"
  let ?s = "scripted_session [] []"
  have "Assuan_inquire ''KEYBLOCK'' MAX_KEYBLOCK_LENGTH GPG_ERR_NO_ERROR []
          \<in> set (new_calls ?s (snd (cmd_ks_put ?E ?s)))"
    by (simp add: run_defs cmd_ks_put_def ensure_keyserver_def make_keyserver_item_def)
  from cmd_ks_put_empty_keyblock [OF this] show ?thesis
    by blast
qed

end
